theory Spec2Isabelle
  imports Main
begin

section \<open>Python values\<close>

text \<open>
  The values that reach the store come from \<^verbatim>\<open>json.load\<close> or from callers: None, bool,
  int (unbounded), str, list and dict with string keys. A dict is kept as an association
  list in insertion order; \<open>map_of\<close> is Python's lookup when the keys are distinct, as
  they are in a Python dict. Floating-point numbers are outside the model.
\<close>

datatype pyval =
    PNone
  | PBool bool
  | PInt int
  | PStr string
  | PList "pyval list"
  | PDict "(string \<times> pyval) list"

datatype exn =
    SqliteError      \<comment> \<open>\<^verbatim>\<open>sqlite3.Error\<close> and its subclasses\<close>
  | OverflowError
  | TypeError
  | AttributeError
  | ValueError
  | KeyError

definition is_sqlite_error :: "exn \<Rightarrow> bool" where
  "is_sqlite_error e = (e = SqliteError)"

definition is_exception :: "exn \<Rightarrow> bool" where
  "is_exception e = True"

subsection \<open>\<^verbatim>\<open>str()\<close> and \<^verbatim>\<open>int()\<close>\<close>

definition digit_char :: "nat \<Rightarrow> char" where
  "digit_char n = ''0123456789abcdef'' ! n"

function string_of_nat :: "nat \<Rightarrow> string" where
  "string_of_nat n =
     (if n < 10 then [digit_char n] else string_of_nat (n div 10) @ [digit_char (n mod 10)])"
  by pat_completeness auto
termination
  by (relation "measure id") auto

declare string_of_nat.simps [simp del]

definition string_of_int :: "int \<Rightarrow> string" where
  "string_of_int i = (if i < 0 then CHR ''-'' # string_of_nat (nat (- i)) else string_of_nat (nat i))"

text \<open>
  \<^verbatim>\<open>repr\<close> of a str: single quotes, unless the text holds a single quote and no double
  quote; backslash, the chosen quote, newline, carriage return and tab are escaped, other
  control characters are written \<^verbatim>\<open>\xNN\<close>. Characters are bytes here, and bytes from
  128 on are printed as they are.
\<close>

definition repr_char :: "char \<Rightarrow> char \<Rightarrow> string" where
  "repr_char q c =
     (let n = (of_char c :: nat) in
      if c = CHR 0x5C then [CHR 0x5C, CHR 0x5C]
      else if c = q then [CHR 0x5C, q]
      else if n = 10 then [CHR 0x5C, CHR ''n'']
      else if n = 13 then [CHR 0x5C, CHR ''r'']
      else if n = 9 then [CHR 0x5C, CHR ''t'']
      else if n < 32 \<or> n = 127 then [CHR 0x5C, CHR ''x'', digit_char (n div 16), digit_char (n mod 16)]
      else [c])"

definition repr_str :: "string \<Rightarrow> string" where
  "repr_str s =
     (let q = (if CHR 0x27 \<in> set s \<and> CHR 0x22 \<notin> set s then CHR 0x22 else CHR 0x27)
      in q # concat (map (repr_char q) s) @ [q])"

fun join :: "string \<Rightarrow> string list \<Rightarrow> string" where
  "join sep [] = []"
| "join sep [x] = x"
| "join sep (x # y # ys) = x @ sep @ join sep (y # ys)"

fun py_repr :: "pyval \<Rightarrow> string" where
  "py_repr PNone = ''None''"
| "py_repr (PBool b) = (if b then ''True'' else ''False'')"
| "py_repr (PInt i) = string_of_int i"
| "py_repr (PStr s) = repr_str s"
| "py_repr (PList xs) = ''['' @ join '', '' (map py_repr xs) @ '']''"
| "py_repr (PDict kvs) =
     ''{'' @ join '', '' (map (\<lambda>(k, v). repr_str k @ '': '' @ py_repr v) kvs) @ ''}''"

definition py_str :: "pyval \<Rightarrow> string" where
  "py_str v = (case v of PStr s \<Rightarrow> s | _ \<Rightarrow> py_repr v)"

text \<open>
  \<^verbatim>\<open>int(s)\<close> for a str: surrounding whitespace is dropped, a sign may lead, and the
  digits may be separated by single underscores.
\<close>

definition is_space :: "char \<Rightarrow> bool" where
  "is_space c = (let n = (of_char c :: nat) in (9 \<le> n \<and> n \<le> 13) \<or> (28 \<le> n \<and> n \<le> 32))"

definition is_digit :: "char \<Rightarrow> bool" where
  "is_digit c = (let n = (of_char c :: nat) in 48 \<le> n \<and> n \<le> 57)"

definition digit_val :: "char \<Rightarrow> int" where
  "digit_val c = int (of_char c) - 48"

fun digits_value :: "int \<Rightarrow> string \<Rightarrow> int option" where
  "digits_value acc [] = Some acc"
| "digits_value acc (c # cs) =
     (if c = CHR ''_'' then
        (case cs of [] \<Rightarrow> None | d # _ \<Rightarrow> if is_digit d then digits_value acc cs else None)
      else if is_digit c then digits_value (10 * acc + digit_val c) cs
      else None)"

definition unsigned_value :: "string \<Rightarrow> int option" where
  "unsigned_value s = (case s of [] \<Rightarrow> None | c # _ \<Rightarrow> if is_digit c then digits_value 0 s else None)"

definition strip :: "string \<Rightarrow> string" where
  "strip s = rev (dropWhile is_space (rev (dropWhile is_space s)))"

definition int_of_string :: "string \<Rightarrow> int option" where
  "int_of_string s =
     (case strip s of
        [] \<Rightarrow> None
      | c # cs \<Rightarrow>
          if c = CHR ''-'' then map_option uminus (unsigned_value cs)
          else if c = CHR ''+'' then unsigned_value cs
          else unsigned_value (c # cs))"

definition py_int :: "pyval \<Rightarrow> exn + int" where
  "py_int v =
     (case v of
        PInt i \<Rightarrow> Inr i
      | PBool b \<Rightarrow> Inr (if b then 1 else 0)
      | PStr s \<Rightarrow> (case int_of_string s of Some i \<Rightarrow> Inr i | None \<Rightarrow> Inl ValueError)
      | _ \<Rightarrow> Inl TypeError)"

subsection \<open>Equality, hashing, truth\<close>

text \<open>
  Python's \<^verbatim>\<open>==\<close>: \<^verbatim>\<open>True == 1\<close> and \<^verbatim>\<open>False == 0\<close>, lists compare by position
  and dicts as mappings.
\<close>

fun py_eq :: "pyval \<Rightarrow> pyval \<Rightarrow> bool" where
  "py_eq PNone PNone = True"
| "py_eq (PBool a) (PBool b) = (a = b)"
| "py_eq (PBool a) (PInt j) = ((if a then 1 else 0) = j)"
| "py_eq (PInt i) (PBool b) = (i = (if b then 1 else 0))"
| "py_eq (PInt i) (PInt j) = (i = j)"
| "py_eq (PStr s) (PStr t) = (s = t)"
| "py_eq (PList xs) (PList ys) = list_all2 py_eq xs ys"
| "py_eq (PDict xs) (PDict ys) =
     (length xs = length ys \<and>
      list_all (\<lambda>(k, v). list_ex (\<lambda>(k', w). k' = k \<and> py_eq v w) ys) xs)"
| "py_eq _ _ = False"

definition hashable :: "pyval \<Rightarrow> bool" where
  "hashable v = (case v of PList _ \<Rightarrow> False | PDict _ \<Rightarrow> False | _ \<Rightarrow> True)"

text \<open>
  \<^verbatim>\<open>x in s\<close> for a set or for the keys of a dict: an unhashable \<open>x\<close> (a list, a
  dict) raises \<^verbatim>\<open>TypeError\<close>; otherwise some element equals \<open>x\<close>.
\<close>

definition in_set :: "pyval \<Rightarrow> pyval list \<Rightarrow> exn + bool" where
  "in_set v xs = (if \<not> hashable v then Inl TypeError else Inr (list_ex (py_eq v) xs))"

text \<open>\<^verbatim>\<open>x in xs\<close> for a list: some element equals \<open>x\<close>.\<close>

definition in_list :: "pyval \<Rightarrow> pyval list \<Rightarrow> bool" where
  "in_list v xs = list_ex (py_eq v) xs"

definition py_get :: "(string \<times> pyval) list \<Rightarrow> string \<Rightarrow> pyval \<Rightarrow> pyval" where
  "py_get d k dflt = (case map_of d k of Some v \<Rightarrow> v | None \<Rightarrow> dflt)"

definition has_key :: "(string \<times> 'a) list \<Rightarrow> string \<Rightarrow> bool" where
  "has_key d k = (k \<in> set (map fst d))"

text \<open>\<^verbatim>\<open>d[k] = v\<close> and \<^verbatim>\<open>d.setdefault(k, v)\<close> on a dict in insertion order.\<close>

fun dict_set :: "string \<Rightarrow> 'a \<Rightarrow> (string \<times> 'a) list \<Rightarrow> (string \<times> 'a) list" where
  "dict_set k v [] = [(k, v)]"
| "dict_set k v ((k', v') # d) = (if k' = k then (k, v) # d else (k', v') # dict_set k v d)"

definition setdefault :: "string \<Rightarrow> 'a \<Rightarrow> (string \<times> 'a) list \<Rightarrow> (string \<times> 'a) list" where
  "setdefault k v d = (if has_key d k then d else d @ [(k, v)])"

definition is_dict :: "pyval \<Rightarrow> bool" where
  "is_dict v = (case v of PDict _ \<Rightarrow> True | _ \<Rightarrow> False)"

text \<open>\<^verbatim>\<open>v.get\<close> and \<^verbatim>\<open>v.items()\<close> exist on a dict only.\<close>

definition as_dict :: "pyval \<Rightarrow> exn + (string \<times> pyval) list" where
  "as_dict v = (case v of PDict kvs \<Rightarrow> Inr kvs | _ \<Rightarrow> Inl AttributeError)"

subsection \<open>JSON text\<close>

text \<open>
  \<^verbatim>\<open>json.dumps\<close> with its defaults: \<^verbatim>\<open>", "\<close> and \<^verbatim>\<open>": "\<close> as separators, and every
  character outside the printable ASCII range escaped.
\<close>

definition json_char :: "char \<Rightarrow> string" where
  "json_char c =
     (let n = (of_char c :: nat) in
      if c = CHR 0x22 then [CHR 0x5C, CHR 0x22]
      else if c = CHR 0x5C then [CHR 0x5C, CHR 0x5C]
      else if n = 10 then [CHR 0x5C, CHR ''n'']
      else if n = 13 then [CHR 0x5C, CHR ''r'']
      else if n = 9 then [CHR 0x5C, CHR ''t'']
      else if n = 8 then [CHR 0x5C, CHR ''b'']
      else if n = 12 then [CHR 0x5C, CHR ''f'']
      else if n < 32 \<or> 126 < n
        then [CHR 0x5C, CHR ''u'', CHR ''0'', CHR ''0'', digit_char (n div 16), digit_char (n mod 16)]
      else [c])"

definition json_string :: "string \<Rightarrow> string" where
  "json_string s = CHR 0x22 # concat (map json_char s) @ [CHR 0x22]"

fun json_dumps :: "pyval \<Rightarrow> string" where
  "json_dumps PNone = ''null''"
| "json_dumps (PBool b) = (if b then ''true'' else ''false'')"
| "json_dumps (PInt i) = string_of_int i"
| "json_dumps (PStr s) = json_string s"
| "json_dumps (PList xs) = ''['' @ join '', '' (map json_dumps xs) @ '']''"
| "json_dumps (PDict kvs) =
     ''{'' @ join '', '' (map (\<lambda>(k, v). json_string k @ '': '' @ json_dumps v) kvs) @ ''}''"

text \<open>
  \<^verbatim>\<open>json.loads\<close> of a text: \<open>None\<close> is \<^verbatim>\<open>JSONDecodeError\<close>. The grammar of JSON is not
  part of this development: the parser is fixed on the empty object, which is what the
  store itself writes for an entity without structured data and what the schema has as
  default, and is left unspecified on every other text.
\<close>

definition json_loads_text :: "string \<Rightarrow> pyval option" where
  "json_loads_text s = (if s = ''{}'' then Some (PDict []) else undefined s)"

section \<open>The SQLite store\<close>

subsection \<open>Column values\<close>

text \<open>
  A column holds NULL, an integer or a text; REAL and BLOB values are outside the model.
\<close>

datatype sqlval = SNull | SInt int | SText string

type_synonym row = "(string \<times> sqlval) list"

definition int64 :: "int \<Rightarrow> bool" where
  "int64 i = (- (2 ^ 63) \<le> i \<and> i < 2 ^ 63)"

text \<open>
  Binding a Python value to a \<^verbatim>\<open>?\<close>: a list or dict is refused by sqlite3 with a
  \<^verbatim>\<open>sqlite3.Error\<close>; an int beyond 64 bits raises \<^verbatim>\<open>OverflowError\<close>, which is not one.
\<close>

definition bind_param :: "pyval \<Rightarrow> exn + sqlval" where
  "bind_param v =
     (case v of
        PNone \<Rightarrow> Inr SNull
      | PBool b \<Rightarrow> Inr (SInt (if b then 1 else 0))
      | PInt i \<Rightarrow> if int64 i then Inr (SInt i) else Inl OverflowError
      | PStr s \<Rightarrow> Inr (SText s)
      | _ \<Rightarrow> Inl SqliteError)"

fun bind_params :: "(string \<times> pyval) list \<Rightarrow> exn + row" where
  "bind_params [] = Inr []"
| "bind_params ((k, v) # kvs) =
     (case bind_param v of
        Inl e \<Rightarrow> Inl e
      | Inr x \<Rightarrow> (case bind_params kvs of Inl e \<Rightarrow> Inl e | Inr xs \<Rightarrow> Inr ((k, x) # xs)))"

text \<open>What Python reads back from a column, its truth value, and \<^verbatim>\<open>int()\<close> of it.\<close>

definition py_of_sql :: "sqlval \<Rightarrow> pyval" where
  "py_of_sql x = (case x of SNull \<Rightarrow> PNone | SInt i \<Rightarrow> PInt i | SText s \<Rightarrow> PStr s)"

definition sql_truthy :: "sqlval \<Rightarrow> bool" where
  "sql_truthy x = (case x of SNull \<Rightarrow> False | SInt i \<Rightarrow> i \<noteq> 0 | SText s \<Rightarrow> s \<noteq> [])"

definition col :: "string \<Rightarrow> row \<Rightarrow> sqlval" where
  "col k r = (case map_of r k of Some v \<Rightarrow> v | None \<Rightarrow> SNull)"

fun set_col :: "string \<Rightarrow> sqlval \<Rightarrow> row \<Rightarrow> row" where
  "set_col k v [] = [(k, v)]"
| "set_col k v ((k', v') # r) = (if k' = k then (k, v) # r else (k', v') # set_col k v r)"

text \<open>SQL's \<^verbatim>\<open>=\<close> in a WHERE clause: NULL equals nothing.\<close>

definition sql_eq :: "sqlval \<Rightarrow> sqlval \<Rightarrow> bool" where
  "sql_eq a b = (a \<noteq> SNull \<and> a = b)"

subsection \<open>Schema\<close>

datatype affinity = AText | AInteger | ANumeric

datatype dflt = DVal sqlval | DNow

type_synonym schema = "(string \<times> affinity \<times> dflt) list"

datatype table =
    Users | User_meta | Inventory | Jobs | User_jobs | Sects | Sect_members
  | Store_items | Tournaments | Tournament_participants

fun schema_of :: "table \<Rightarrow> schema" where
  "schema_of Users =
     [(''user_id'', AText, DVal SNull), (''cash'', AInteger, DVal (SInt 0)),
      (''bank'', AInteger, DVal (SInt 0)), (''job'', AText, DVal SNull),
      (''last_cultivate'', AText, DVal SNull), (''last_collect'', AText, DVal SNull),
      (''message_count'', AInteger, DVal (SInt 0)), (''created_at'', ANumeric, DNow),
      (''updated_at'', ANumeric, DNow)]"
| "schema_of User_meta =
     [(''user_id'', AText, DVal SNull), (''meta_key'', AText, DVal SNull),
      (''meta_value'', AText, DVal SNull)]"
| "schema_of Inventory =
     [(''id'', AInteger, DVal SNull), (''user_id'', AText, DVal SNull),
      (''item_name'', AText, DVal SNull), (''quantity'', AInteger, DVal (SInt 1)),
      (''rarity'', AText, DVal (SText ''common'')), (''metadata'', AText, DVal (SText ''{}''))]"
| "schema_of Jobs =
     [(''job_name'', AText, DVal SNull), (''min_pay'', AInteger, DVal SNull),
      (''max_pay'', AInteger, DVal SNull)]"
| "schema_of User_jobs =
     [(''user_id'', AText, DVal SNull), (''job_name'', AText, DVal SNull),
      (''xp'', AInteger, DVal (SInt 0)), (''rank'', AText, DVal (SText ''apprentice'')),
      (''last_work'', AText, DVal SNull)]"
| "schema_of Sects =
     [(''sect_id'', AText, DVal SNull), (''name'', AText, DVal SNull),
      (''leader_id'', AText, DVal SNull), (''description'', AText, DVal (SText [])),
      (''created_at'', ANumeric, DNow), (''level'', AInteger, DVal (SInt 1)),
      (''wealth'', AInteger, DVal (SInt 0)), (''max_members'', AInteger, DVal (SInt 10))]"
| "schema_of Sect_members =
     [(''sect_id'', AText, DVal SNull), (''user_id'', AText, DVal SNull),
      (''role'', AText, DVal (SText ''member'')), (''joined_at'', ANumeric, DNow)]"
| "schema_of Store_items =
     [(''item_name'', AText, DVal SNull), (''price'', AInteger, DVal SNull),
      (''description'', AText, DVal (SText [])), (''stock'', AInteger, DVal (SInt (- 1))),
      (''min_rank'', AInteger, DVal (SInt 0)), (''rarity'', AText, DVal (SText ''common'')),
      (''metadata'', AText, DVal (SText ''{}''))]"
| "schema_of Tournaments =
     [(''tournament_id'', AText, DVal SNull), (''host_id'', AText, DVal SNull),
      (''title'', AText, DVal SNull), (''description'', AText, DVal (SText [])),
      (''status'', AText, DVal (SText ''recruiting'')), (''created_at'', ANumeric, DNow),
      (''winner_id'', AText, DVal SNull), (''reward_data'', AText, DVal (SText ''{}''))]"
| "schema_of Tournament_participants =
     [(''tournament_id'', AText, DVal SNull), (''participant_id'', AText, DVal SNull),
      (''joined_at'', ANumeric, DNow), (''is_bot'', AInteger, DVal (SInt 0)),
      (''bot_name'', AText, DVal SNull)]"

fun pk_of :: "table \<Rightarrow> string list" where
  "pk_of Users = [''user_id'']"
| "pk_of User_meta = [''user_id'', ''meta_key'']"
| "pk_of Inventory = [''id'']"
| "pk_of Jobs = [''job_name'']"
| "pk_of User_jobs = [''user_id'', ''job_name'']"
| "pk_of Sects = [''sect_id'']"
| "pk_of Sect_members = [''sect_id'', ''user_id'']"
| "pk_of Store_items = [''item_name'']"
| "pk_of Tournaments = [''tournament_id'']"
| "pk_of Tournament_participants = [''tournament_id'', ''participant_id'']"

text \<open>
  Column affinity. A TEXT column turns an integer into its decimal text. An INTEGER or
  NUMERIC column turns a text that is an integer literal (whitespace around it, a sign,
  digits) into that integer when it fits 64 bits. A text that is any other numeric
  literal (a fraction, an exponent, an integer beyond 64 bits) becomes a REAL there, or
  the integer that REAL equals (\<^verbatim>\<open>'1e2'\<close> is stored as 100, \<^verbatim>\<open>'1.5'\<close> as 1.5): floating
  point is outside the model, and \<open>real_affinity\<close> leaves that value unspecified. Every
  other text stays as it is.
\<close>

definition sql_space :: "char \<Rightarrow> bool" where
  "sql_space c = (let n = (of_char c :: nat) in (9 \<le> n \<and> n \<le> 13) \<or> n = 32)"

definition sql_trim :: "string \<Rightarrow> string" where
  "sql_trim s = rev (dropWhile sql_space (rev (dropWhile sql_space s)))"

definition unsigned :: "string \<Rightarrow> string" where
  "unsigned t = (case t of c # cs \<Rightarrow> if c = CHR ''-'' \<or> c = CHR ''+'' then cs else t | [] \<Rightarrow> t)"

definition sql_int_literal :: "string \<Rightarrow> int option" where
  "sql_int_literal s =
     (let t = sql_trim s; u = unsigned t
      in if u \<noteq> [] \<and> list_all is_digit u
         then (case digits_value 0 u of
                 Some n \<Rightarrow> Some (if t \<noteq> [] \<and> hd t = CHR ''-'' then - n else n)
               | None \<Rightarrow> None)
         else None)"

text \<open>
  The numeric literals of SQLite's text-to-number conversion: digits with at most one
  point and at least one digit, then possibly \<^verbatim>\<open>e\<close> or \<^verbatim>\<open>E\<close>, a sign and at least one digit.
\<close>

definition sql_numeric_literal :: "string \<Rightarrow> bool" where
  "sql_numeric_literal s =
     (let u = unsigned (sql_trim s);
          whole = takeWhile is_digit u;
          r1 = dropWhile is_digit u;
          point = (r1 \<noteq> [] \<and> hd r1 = CHR ''.'');
          fraction = (if point then takeWhile is_digit (tl r1) else []);
          r2 = (if point then dropWhile is_digit (tl r1) else r1)
      in (whole \<noteq> [] \<or> fraction \<noteq> [])
         \<and> (r2 = []
              \<or> ((hd r2 = CHR ''e'' \<or> hd r2 = CHR ''E'')
                  \<and> unsigned (tl r2) \<noteq> [] \<and> list_all is_digit (unsigned (tl r2)))))"

definition real_affinity :: "string \<Rightarrow> sqlval" where
  "real_affinity s = undefined s"

definition apply_affinity :: "affinity \<Rightarrow> sqlval \<Rightarrow> sqlval" where
  "apply_affinity a v =
     (case a of
        AText \<Rightarrow> (case v of SInt i \<Rightarrow> SText (string_of_int i) | _ \<Rightarrow> v)
      | _ \<Rightarrow> (case v of
                SText s \<Rightarrow> (case sql_int_literal s of
                              Some i \<Rightarrow> if int64 i then SInt i else real_affinity s
                            | None \<Rightarrow> if sql_numeric_literal s then real_affinity s else v)
              | _ \<Rightarrow> v))"

definition columns :: "table \<Rightarrow> string list" where
  "columns T = map fst (schema_of T)"

definition affinity_of :: "table \<Rightarrow> string \<Rightarrow> affinity" where
  "affinity_of T k = (case map_of (schema_of T) k of Some (a, d) \<Rightarrow> a | None \<Rightarrow> ANumeric)"

subsection \<open>Tables and statements\<close>

record db =
  users :: "row list"
  user_meta :: "row list"
  inventory :: "row list"
  inventory_seq :: int
  jobs :: "row list"
  user_jobs :: "row list"
  sects :: "row list"
  sect_members :: "row list"
  store_items :: "row list"
  tournaments :: "row list"
  tournament_participants :: "row list"

fun rows_of :: "table \<Rightarrow> db \<Rightarrow> row list" where
  "rows_of Users d = users d"
| "rows_of User_meta d = user_meta d"
| "rows_of Inventory d = inventory d"
| "rows_of Jobs d = jobs d"
| "rows_of User_jobs d = user_jobs d"
| "rows_of Sects d = sects d"
| "rows_of Sect_members d = sect_members d"
| "rows_of Store_items d = store_items d"
| "rows_of Tournaments d = tournaments d"
| "rows_of Tournament_participants d = tournament_participants d"

fun put_rows :: "table \<Rightarrow> row list \<Rightarrow> db \<Rightarrow> db" where
  "put_rows Users rs d = d\<lparr>users := rs\<rparr>"
| "put_rows User_meta rs d = d\<lparr>user_meta := rs\<rparr>"
| "put_rows Inventory rs d = d\<lparr>inventory := rs\<rparr>"
| "put_rows Jobs rs d = d\<lparr>jobs := rs\<rparr>"
| "put_rows User_jobs rs d = d\<lparr>user_jobs := rs\<rparr>"
| "put_rows Sects rs d = d\<lparr>sects := rs\<rparr>"
| "put_rows Sect_members rs d = d\<lparr>sect_members := rs\<rparr>"
| "put_rows Store_items rs d = d\<lparr>store_items := rs\<rparr>"
| "put_rows Tournaments rs d = d\<lparr>tournaments := rs\<rparr>"
| "put_rows Tournament_participants rs d = d\<lparr>tournament_participants := rs\<rparr>"

text \<open>
  The statements the code issues, as functions on the tables; \<open>None\<close> is a
  \<^verbatim>\<open>sqlite3.Error\<close> (unknown column, primary key taken), and a failed statement changes
  nothing. Rows are kept in rowid order, which is the order in which a SELECT that scans
  the table walks them. The code never switches \<^verbatim>\<open>PRAGMA foreign_keys\<close> on, so the
  foreign keys of the schema are not enforced and nothing cascades.
\<close>

definition make_row :: "table \<Rightarrow> row \<Rightarrow> string \<Rightarrow> row" where
  "make_row T asg now =
     map (\<lambda>(k, a, d).
            (k, case map_of asg k of
                  Some v \<Rightarrow> apply_affinity a v
                | None \<Rightarrow> (case d of DVal v \<Rightarrow> v | DNow \<Rightarrow> apply_affinity a (SText now))))
         (schema_of T)"

definition same_key :: "table \<Rightarrow> row \<Rightarrow> row \<Rightarrow> bool" where
  "same_key T r r' = list_all (\<lambda>k. sql_eq (col k r) (col k r')) (pk_of T)"

definition next_id :: "db \<Rightarrow> int" where
  "next_id d =
     1 + fold max (map (\<lambda>r. case col ''id'' r of SInt i \<Rightarrow> i | _ \<Rightarrow> 0) (inventory d))
              (inventory_seq d)"

definition known_columns :: "table \<Rightarrow> row \<Rightarrow> bool" where
  "known_columns T asg = list_all (\<lambda>k. k \<in> set (columns T)) (map fst asg)"

definition sql_insert :: "table \<Rightarrow> row \<Rightarrow> string \<Rightarrow> db \<Rightarrow> db option" where
  "sql_insert T asg now d =
     (if \<not> known_columns T asg then None
      else if T = Inventory \<and> \<not> has_key asg ''id'' then
        (let i = next_id d; r = make_row T ((''id'', SInt i) # asg) now
         in Some (d\<lparr>inventory := inventory d @ [r], inventory_seq := i\<rparr>))
      else
        (let r = make_row T asg now
         in if list_ex (same_key T r) (rows_of T d) then None
            else Some (put_rows T (rows_of T d @ [r]) d)))"

definition sql_insert_or_replace :: "table \<Rightarrow> row \<Rightarrow> string \<Rightarrow> db \<Rightarrow> db option" where
  "sql_insert_or_replace T asg now d =
     (if \<not> known_columns T asg then None
      else
        (let r = make_row T asg now
         in Some (put_rows T (filter (\<lambda>r'. \<not> same_key T r r') (rows_of T d) @ [r]) d)))"

definition assign :: "table \<Rightarrow> row \<Rightarrow> row \<Rightarrow> row" where
  "assign T asg r = fold (\<lambda>(k, v) r'. set_col k (apply_affinity (affinity_of T k) v) r') asg r"

definition sql_update :: "table \<Rightarrow> row \<Rightarrow> (row \<Rightarrow> bool) \<Rightarrow> db \<Rightarrow> db option" where
  "sql_update T asg p d =
     (if \<not> known_columns T asg then None
      else Some (put_rows T (map (\<lambda>r. if p r then assign T asg r else r) (rows_of T d)) d))"

definition sql_delete :: "table \<Rightarrow> (row \<Rightarrow> bool) \<Rightarrow> db \<Rightarrow> db option" where
  "sql_delete T p d = Some (put_rows T (filter (\<lambda>r. \<not> p r) (rows_of T d)) d)"

definition sql_select :: "table \<Rightarrow> (row \<Rightarrow> bool) \<Rightarrow> db \<Rightarrow> row list" where
  "sql_select T p d = filter p (rows_of T d)"

text \<open>
  A SELECT that goes through the index of a text primary key (a search on the first
  column of a two-column key, or a scan that reads the key column only) walks the rows
  in the order of that index: NULL first, then integers, then texts compared byte by
  byte; rows with the same key come in rowid order.
\<close>

fun bytes_le :: "string \<Rightarrow> string \<Rightarrow> bool" where
  "bytes_le [] t = True"
| "bytes_le (a # s) [] = False"
| "bytes_le (a # s) (b # t) = ((of_char a :: nat) < of_char b \<or> (a = b \<and> bytes_le s t))"

definition sql_le :: "sqlval \<Rightarrow> sqlval \<Rightarrow> bool" where
  "sql_le a b =
     (case a of
        SNull \<Rightarrow> True
      | SInt i \<Rightarrow> (case b of SNull \<Rightarrow> False | SInt j \<Rightarrow> i \<le> j | SText t \<Rightarrow> True)
      | SText s \<Rightarrow> (case b of SText t \<Rightarrow> bytes_le s t | _ \<Rightarrow> False))"

fun insert_by :: "string \<Rightarrow> row \<Rightarrow> row list \<Rightarrow> row list" where
  "insert_by k r [] = [r]"
| "insert_by k r (r' # rs) =
     (if sql_le (col k r') (col k r) then r' # insert_by k r rs else r # r' # rs)"

definition index_order :: "string \<Rightarrow> row list \<Rightarrow> row list" where
  "index_order k rs = fold (insert_by k) rs []"

subsection \<open>The connection\<close>

text \<open>
  One shared connection. \<open>live\<close> is what the open transaction sees, \<open>saved\<close> what the
  last commit wrote; \<^verbatim>\<open>commit\<close> copies the first onto the second, \<^verbatim>\<open>rollback\<close> the
  second onto the first. \<open>faults\<close> is the storage's behaviour to come: each
  \<^verbatim>\<open>execute\<close>, each \<^verbatim>\<open>commit\<close> and each \<^verbatim>\<open>rollback\<close> takes one entry, and \<open>True\<close> makes
  that call raise \<^verbatim>\<open>sqlite3.Error\<close>; past the end of the list nothing fails. A closed
  connection is one where every entry is \<open>True\<close>. \<open>now\<close> is the text CURRENT_TIMESTAMP
  yields.
\<close>

record conn =
  live :: db
  saved :: db
  faults :: "bool list"
  now :: string

type_synonym 'a io = "conn \<Rightarrow> (exn + 'a) \<times> conn"

definition ret :: "'a \<Rightarrow> 'a io" where
  "ret x c = (Inr x, c)"

definition raise :: "exn \<Rightarrow> 'a io" where
  "raise e c = (Inl e, c)"

definition lift :: "exn + 'a \<Rightarrow> 'a io" where
  "lift r c = (r, c)"

definition bind_io :: "'a io \<Rightarrow> ('a \<Rightarrow> 'b io) \<Rightarrow> 'b io" where
  "bind_io m f c = (case m c of (Inl e, c') \<Rightarrow> (Inl e, c') | (Inr x, c') \<Rightarrow> f x c')"

definition seq_io :: "'a io \<Rightarrow> 'b io \<Rightarrow> 'b io" where
  "seq_io m k = bind_io m (\<lambda>_. k)"

text \<open>\<^verbatim>\<open>try: m except <class>: h\<close>.\<close>

definition try_except :: "'a io \<Rightarrow> (exn \<Rightarrow> bool) \<Rightarrow> 'a io \<Rightarrow> 'a io" where
  "try_except m caught h c =
     (case m c of
        (Inl e, c') \<Rightarrow> if caught e then h c' else (Inl e, c')
      | (Inr x, c') \<Rightarrow> (Inr x, c'))"

definition faulty :: "conn \<Rightarrow> bool" where
  "faulty c = (case faults c of [] \<Rightarrow> False | b # _ \<Rightarrow> b)"

definition step_faults :: "conn \<Rightarrow> conn" where
  "step_faults c = c\<lparr>faults := tl (faults c)\<rparr>"

definition execute :: "(string \<Rightarrow> db \<Rightarrow> db option) \<Rightarrow> unit io" where
  "execute stmt c =
     (if faulty c then (Inl SqliteError, step_faults c)
      else (case stmt (now c) (live c) of
              None \<Rightarrow> (Inl SqliteError, step_faults c)
            | Some d \<Rightarrow> (Inr (), (step_faults c)\<lparr>live := d\<rparr>)))"

definition query :: "(db \<Rightarrow> 'a) \<Rightarrow> 'a io" where
  "query q c =
     (if faulty c then (Inl SqliteError, step_faults c)
      else (Inr (q (live c)), step_faults c))"

definition commit :: "unit io" where
  "commit c =
     (if faulty c then (Inl SqliteError, step_faults c)
      else (Inr (), (step_faults c)\<lparr>saved := live c\<rparr>))"

definition rollback :: "unit io" where
  "rollback c =
     (if faulty c then (Inl SqliteError, step_faults c)
      else (Inr (), (step_faults c)\<lparr>live := saved c\<rparr>))"

text \<open>A \<^verbatim>\<open>for\<close> loop whose body may raise.\<close>

fun for_each :: "'a list \<Rightarrow> ('a \<Rightarrow> unit io) \<Rightarrow> unit io" where
  "for_each [] body = ret ()"
| "for_each (x # xs) body = seq_io (body x) (for_each xs body)"

section \<open>Entity store (\<^verbatim>\<open>database.py\<close>)\<close>

subsection \<open>Users\<close>

definition zero_user :: "string \<Rightarrow> row" where
  "zero_user user_id =
     [(''user_id'', SText user_id), (''cash'', SInt 0), (''bank'', SInt 0), (''job'', SNull),
      (''last_cultivate'', SNull), (''last_collect'', SNull), (''message_count'', SInt 0)]"

definition by_user :: "string \<Rightarrow> row \<Rightarrow> bool" where
  "by_user user_id r = sql_eq (col ''user_id'' r) (SText user_id)"

definition get_user :: "pyval \<Rightarrow> row io" where
  "get_user user_id0 =
     (let user_id = py_str user_id0 in
      try_except
        (bind_io (query (sql_select Users (by_user user_id)))
           (\<lambda>found. case found of
                user # _ \<Rightarrow> ret user
              | [] \<Rightarrow>
                  seq_io (execute (sql_insert Users
                            [(''user_id'', SText user_id), (''cash'', SInt 0), (''bank'', SInt 0)]))
                    (seq_io commit (ret (zero_user user_id)))))
        is_sqlite_error
        (seq_io rollback (ret (zero_user user_id))))"

text \<open>
  \<^verbatim>\<open>update_user\<close>: only keys of the dict \<^verbatim>\<open>get_user\<close> returned, other than
  \<^verbatim>\<open>user_id\<close>, reach the UPDATE. The values are bound as they are.
\<close>

definition update_user :: "pyval \<Rightarrow> (string \<times> pyval) list \<Rightarrow> bool io" where
  "update_user user_id0 data =
     (let user_id = py_str user_id0 in
      try_except
        (bind_io (get_user (PStr user_id))
           (\<lambda>user.
              let fields = filter (\<lambda>(key, value). has_key user key \<and> key \<noteq> ''user_id'') data
              in if fields = [] then ret True
                 else bind_io (lift (bind_params fields))
                        (\<lambda>values.
                           seq_io (execute (\<lambda>t. sql_update Users
                                      (values @ [(''updated_at'', SText t)]) (by_user user_id)))
                             (seq_io commit (ret True)))))
        is_sqlite_error
        (seq_io rollback (ret False)))"

subsection \<open>Balances\<close>

text \<open>\<^verbatim>\<open>try: x = int(x) except (ValueError, TypeError): x = 0\<close>\<close>

definition int_or_zero :: "pyval \<Rightarrow> int" where
  "int_or_zero v = (case py_int v of Inr i \<Rightarrow> i | Inl e \<Rightarrow> 0)"

text \<open>\<^verbatim>\<open>user.get(k)\<close>, then 0 for None and for what \<^verbatim>\<open>int()\<close> refuses.\<close>

definition balance_of :: "row \<Rightarrow> string \<Rightarrow> int" where
  "balance_of user k =
     (case map_of user k of
        None \<Rightarrow> 0
      | Some SNull \<Rightarrow> 0
      | Some v \<Rightarrow> int_or_zero (py_of_sql v))"

definition add_cash :: "pyval \<Rightarrow> pyval \<Rightarrow> bool io" where
  "add_cash user_id0 amount0 =
     (let user_id = py_str user_id0 in
      try_except
        (let amount = int_or_zero amount0 in
         bind_io (get_user (PStr user_id))
           (\<lambda>user.
              let cash = balance_of user ''cash'';
                  new_cash = max 0 (cash + amount)
              in update_user (PStr user_id) [(''cash'', PInt new_cash)]))
        is_exception
        (ret False))"

definition set_cash :: "pyval \<Rightarrow> pyval \<Rightarrow> bool io" where
  "set_cash user_id amount0 =
     (let amount = max 0 (int_or_zero amount0)
      in update_user user_id [(''cash'', PInt amount)])"

definition add_bank :: "pyval \<Rightarrow> pyval \<Rightarrow> bool io" where
  "add_bank user_id0 amount0 =
     (let user_id = py_str user_id0 in
      try_except
        (let amount = int_or_zero amount0 in
         bind_io (get_user (PStr user_id))
           (\<lambda>user.
              let bank = balance_of user ''bank'';
                  new_bank = max 0 (bank + amount)
              in update_user (PStr user_id) [(''bank'', PInt new_bank)]))
        is_exception
        (ret False))"

definition set_bank :: "pyval \<Rightarrow> pyval \<Rightarrow> bool io" where
  "set_bank user_id amount0 =
     (let amount = max 0 (int_or_zero amount0)
      in update_user user_id [(''bank'', PInt amount)])"

subsection \<open>Inventory\<close>

definition by_id :: "sqlval \<Rightarrow> row \<Rightarrow> bool" where
  "by_id i r = sql_eq (col ''id'' r) i"

definition by_item :: "string \<Rightarrow> string \<Rightarrow> string option \<Rightarrow> row \<Rightarrow> bool" where
  "by_item user_id item_name rarity r =
     (sql_eq (col ''user_id'' r) (SText user_id) \<and> sql_eq (col ''item_name'' r) (SText item_name)
      \<and> (case rarity of None \<Rightarrow> True | Some ra \<Rightarrow> sql_eq (col ''rarity'' r) (SText ra)))"

text \<open>
  \<^verbatim>\<open>existing_item['quantity'] + quantity\<close> and the comparison with \<^verbatim>\<open><=\<close>: an int is
  needed on the left, None or a str raises \<^verbatim>\<open>TypeError\<close>.
\<close>

definition stored_int :: "sqlval \<Rightarrow> exn + int" where
  "stored_int v = (case v of SInt i \<Rightarrow> Inr i | _ \<Rightarrow> Inl TypeError)"

definition add_inventory_item ::
  "pyval \<Rightarrow> string \<Rightarrow> int \<Rightarrow> string \<Rightarrow> pyval \<Rightarrow> bool io" where
  "add_inventory_item user_id0 item_name quantity rarity metadata0 =
     (let user_id = py_str user_id0;
          metadata = (if metadata0 = PNone then PDict [] else metadata0)
      in
      try_except
        (seq_io (get_user (PStr user_id))
           (bind_io (query (sql_select Inventory (by_item user_id item_name (Some rarity))))
              (\<lambda>found.
                 seq_io
                   (case found of
                      existing_item # _ \<Rightarrow>
                        bind_io (lift (stored_int (col ''quantity'' existing_item)))
                          (\<lambda>q. bind_io (lift (bind_param (PInt (q + quantity))))
                             (\<lambda>new_quantity.
                                execute (\<lambda>t. sql_update Inventory [(''quantity'', new_quantity)]
                                                 (by_id (col ''id'' existing_item)))))
                    | [] \<Rightarrow>
                        bind_io (lift (bind_param (PInt quantity)))
                          (\<lambda>q. execute (sql_insert Inventory
                                  [(''user_id'', SText user_id), (''item_name'', SText item_name),
                                   (''quantity'', q), (''rarity'', SText rarity),
                                   (''metadata'', SText (json_dumps metadata))])))
                   (seq_io commit (ret True)))))
        is_sqlite_error
        (seq_io rollback (ret False)))"

text \<open>\<^verbatim>\<open>if rarity:\<close> takes None and the empty string alike.\<close>

definition remove_inventory_item ::
  "pyval \<Rightarrow> string \<Rightarrow> int \<Rightarrow> string option \<Rightarrow> bool io" where
  "remove_inventory_item user_id0 item_name quantity rarity =
     (let user_id = py_str user_id0;
          rarity' = (case rarity of Some ra \<Rightarrow> if ra = [] then None else Some ra | None \<Rightarrow> None)
      in
      try_except
        (bind_io (query (sql_select Inventory (by_item user_id item_name rarity')))
           (\<lambda>found.
              case found of
                [] \<Rightarrow> ret False
              | existing_item # _ \<Rightarrow>
                  bind_io (lift (stored_int (col ''quantity'' existing_item)))
                    (\<lambda>q.
                       seq_io
                         (if q \<le> quantity
                          then execute (\<lambda>t. sql_delete Inventory (by_id (col ''id'' existing_item)))
                          else bind_io (lift (bind_param (PInt (q - quantity))))
                                 (\<lambda>new_quantity.
                                    execute (\<lambda>t. sql_update Inventory [(''quantity'', new_quantity)]
                                                     (by_id (col ''id'' existing_item)))))
                         (seq_io commit (ret True)))))
        is_sqlite_error
        (seq_io rollback (ret False)))"

subsection \<open>Jobs\<close>

definition set_job :: "string \<Rightarrow> pyval \<Rightarrow> pyval \<Rightarrow> bool io" where
  "set_job job_name min_pay max_pay =
     try_except
       (bind_io (lift (bind_params [(''min_pay'', min_pay), (''max_pay'', max_pay)]))
          (\<lambda>pay. seq_io (execute (sql_insert_or_replace Jobs ((''job_name'', SText job_name) # pay)))
                    (seq_io commit (ret True))))
       is_sqlite_error
       (seq_io rollback (ret False))"

definition by_user_job :: "string \<Rightarrow> string \<Rightarrow> row \<Rightarrow> bool" where
  "by_user_job user_id job_name r =
     (sql_eq (col ''user_id'' r) (SText user_id) \<and> sql_eq (col ''job_name'' r) (SText job_name))"

definition update_user_job :: "pyval \<Rightarrow> string \<Rightarrow> (string \<times> pyval) list \<Rightarrow> bool io" where
  "update_user_job user_id0 job_name data =
     (let user_id = py_str user_id0 in
      try_except
        (seq_io (get_user (PStr user_id))
           (bind_io (query (sql_select User_jobs (by_user_job user_id job_name)))
              (\<lambda>found.
                 if found \<noteq> [] then
                   (let fields = filter (\<lambda>(key, value). key \<notin> {''user_id'', ''job_name''}) data
                    in if fields = [] then ret True
                       else bind_io (lift (bind_params fields))
                              (\<lambda>values.
                                 seq_io (execute (\<lambda>t. sql_update User_jobs values
                                                          (by_user_job user_id job_name)))
                                   (seq_io commit (ret True))))
                 else
                   (let data' = setdefault ''rank'' (PStr ''apprentice'') (setdefault ''xp'' (PInt 0) data)
                    in bind_io (lift (bind_params
                                        ([(''user_id'', PStr user_id), (''job_name'', PStr job_name)] @ data')))
                         (\<lambda>values.
                            seq_io (execute (sql_insert User_jobs values))
                              (seq_io commit (ret True)))))))
        is_sqlite_error
        (seq_io rollback (ret False)))"

subsection \<open>Sects\<close>

text \<open>
  The reading functions are also called with ids read back from the store, so they take
  the bound parameter: a text, or NULL, which matches no row. A parameter compared with
  a TEXT column gets TEXT affinity first.
\<close>

definition by_sect :: "sqlval \<Rightarrow> row \<Rightarrow> bool" where
  "by_sect sect_id r = sql_eq (col ''sect_id'' r) (apply_affinity AText sect_id)"

definition get_sect :: "sqlval \<Rightarrow> row option io" where
  "get_sect sect_id =
     try_except
       (bind_io (query (sql_select Sects (by_sect sect_id)))
          (\<lambda>found. ret (case found of sect # _ \<Rightarrow> Some sect | [] \<Rightarrow> None)))
       is_sqlite_error
       (ret None)"

definition create_sect ::
  "string \<Rightarrow> pyval \<Rightarrow> pyval \<Rightarrow> pyval \<Rightarrow> pyval \<Rightarrow> pyval \<Rightarrow> bool io" where
  "create_sect sect_id name leader_id0 description level wealth =
     (let leader_id = py_str leader_id0 in
      try_except
        (seq_io (get_user (PStr leader_id))
           (bind_io (lift (bind_params
                      [(''sect_id'', PStr sect_id), (''name'', name), (''leader_id'', PStr leader_id),
                       (''description'', description), (''level'', level), (''wealth'', wealth)]))
              (\<lambda>values.
                 seq_io (execute (sql_insert Sects values))
                   (seq_io (execute (sql_insert Sect_members
                              [(''sect_id'', SText sect_id), (''user_id'', SText leader_id),
                               (''role'', SText ''leader'')]))
                      (seq_io commit (ret True))))))
        is_sqlite_error
        (seq_io rollback (ret False)))"

definition update_sect :: "string \<Rightarrow> (string \<times> pyval) list \<Rightarrow> bool io" where
  "update_sect sect_id data =
     try_except
       (bind_io (get_sect (SText sect_id))
          (\<lambda>sect.
             if sect = None then ret False
             else
               (let fields = filter (\<lambda>(key, value). key \<noteq> ''sect_id'') data
                in if fields = [] then ret True
                   else bind_io (lift (bind_params fields))
                          (\<lambda>values.
                             seq_io (execute (\<lambda>t. sql_update Sects values (by_sect (SText sect_id))))
                               (seq_io commit (ret True))))))
       is_sqlite_error
       (seq_io rollback (ret False))"

text \<open>
  \<^verbatim>\<open>get_sect_members\<close> joins the membership rows with \<^verbatim>\<open>users\<close>: a membership whose
  user has no row is not returned. The memberships of the sect are found through the
  index of the primary key \<^verbatim>\<open>(sect_id, user_id)\<close>, so they come in the order of their
  user ids.
\<close>

definition join_members :: "sqlval \<Rightarrow> db \<Rightarrow> row list" where
  "join_members sect_id d =
     concat (map (\<lambda>sm. map (\<lambda>u. sm @ [(''cash'', col ''cash'' u), (''bank'', col ''bank'' u)])
                         (filter (\<lambda>u. sql_eq (col ''user_id'' sm) (col ''user_id'' u)) (users d)))
                 (index_order ''user_id'' (filter (by_sect sect_id) (sect_members d))))"

definition get_sect_members :: "sqlval \<Rightarrow> row list io" where
  "get_sect_members sect_id =
     try_except (query (join_members sect_id)) is_sqlite_error (ret [])"

definition by_member :: "string \<Rightarrow> string \<Rightarrow> row \<Rightarrow> bool" where
  "by_member sect_id user_id r =
     (sql_eq (col ''sect_id'' r) (SText sect_id) \<and> sql_eq (col ''user_id'' r) (SText user_id))"

definition add_sect_member :: "string \<Rightarrow> pyval \<Rightarrow> string \<Rightarrow> bool io" where
  "add_sect_member sect_id user_id0 role =
     (let user_id = py_str user_id0 in
      try_except
        (seq_io (get_user (PStr user_id))
           (bind_io (get_sect (SText sect_id))
              (\<lambda>sect.
                 if sect = None then ret False
                 else seq_io (execute (sql_insert_or_replace Sect_members
                                [(''sect_id'', SText sect_id), (''user_id'', SText user_id),
                                 (''role'', SText role)]))
                        (seq_io commit (ret True)))))
        is_sqlite_error
        (seq_io rollback (ret False)))"

definition remove_sect_member :: "string \<Rightarrow> pyval \<Rightarrow> bool io" where
  "remove_sect_member sect_id user_id0 =
     (let user_id = py_str user_id0 in
      try_except
        (seq_io (execute (\<lambda>t. sql_delete Sect_members (by_member sect_id user_id)))
           (seq_io commit (ret True)))
        is_sqlite_error
        (seq_io rollback (ret False)))"

subsection \<open>Store items\<close>

definition set_store_item ::
  "string \<Rightarrow> pyval \<Rightarrow> pyval \<Rightarrow> pyval \<Rightarrow> pyval \<Rightarrow> pyval \<Rightarrow> pyval \<Rightarrow> bool io" where
  "set_store_item item_name price description stock min_rank rarity metadata0 =
     (let metadata = (if metadata0 = PNone then PDict [] else metadata0) in
      try_except
        (bind_io (lift (bind_params
                   [(''item_name'', PStr item_name), (''price'', price), (''description'', description),
                    (''stock'', stock), (''min_rank'', min_rank), (''rarity'', rarity),
                    (''metadata'', PStr (json_dumps metadata))]))
           (\<lambda>values. seq_io (execute (sql_insert_or_replace Store_items values))
                        (seq_io commit (ret True))))
        is_sqlite_error
        (seq_io rollback (ret False)))"

subsection \<open>Tournaments\<close>

definition by_tournament :: "sqlval \<Rightarrow> row \<Rightarrow> bool" where
  "by_tournament tournament_id r =
     sql_eq (col ''tournament_id'' r) (apply_affinity AText tournament_id)"

text \<open>
  \<^verbatim>\<open>get_tournament\<close> returns the row with \<^verbatim>\<open>reward_data\<close> parsed: a text that is not
  JSON gives the empty dict, NULL or an integer raises \<^verbatim>\<open>TypeError\<close> out of
  \<^verbatim>\<open>json.loads\<close>, which no handler of the function takes. The result is the row and
  the parsed value.
\<close>

definition parse_reward :: "row \<Rightarrow> exn + pyval" where
  "parse_reward r =
     (case map_of r ''reward_data'' of
        None \<Rightarrow> Inr (PDict [])
      | Some (SText s) \<Rightarrow> (case json_loads_text s of Some v \<Rightarrow> Inr v | None \<Rightarrow> Inr (PDict []))
      | Some _ \<Rightarrow> Inl TypeError)"

definition get_tournament :: "sqlval \<Rightarrow> (row \<times> pyval) option io" where
  "get_tournament tournament_id =
     try_except
       (bind_io (query (sql_select Tournaments (by_tournament tournament_id)))
          (\<lambda>found. case found of
               tournament # _ \<Rightarrow>
                 bind_io (lift (parse_reward tournament)) (\<lambda>reward. ret (Some (tournament, reward)))
             | [] \<Rightarrow> ret None))
       is_sqlite_error
       (ret None)"

definition create_tournament ::
  "string \<Rightarrow> pyval \<Rightarrow> pyval \<Rightarrow> pyval \<Rightarrow> (string \<times> pyval) list \<Rightarrow> bool io" where
  "create_tournament tournament_id host_id0 title description reward_data =
     (let host_id = py_str host_id0 in
      try_except
        (seq_io (get_user (PStr host_id))
           (bind_io (lift (bind_params
                      [(''tournament_id'', PStr tournament_id), (''host_id'', PStr host_id),
                       (''title'', title), (''description'', description),
                       (''status'', PStr ''recruiting''),
                       (''reward_data'', PStr (json_dumps (PDict reward_data)))]))
              (\<lambda>values. seq_io (execute (sql_insert Tournaments values))
                           (seq_io commit (ret True)))))
        is_sqlite_error
        (seq_io rollback (ret False)))"

definition dump_reward :: "(string \<times> pyval) list \<Rightarrow> (string \<times> pyval) list" where
  "dump_reward data =
     map (\<lambda>(key, value). if key = ''reward_data'' \<and> is_dict value
                          then (key, PStr (json_dumps value)) else (key, value)) data"

definition update_tournament :: "string \<Rightarrow> (string \<times> pyval) list \<Rightarrow> bool io" where
  "update_tournament tournament_id data =
     try_except
       (bind_io (get_tournament (SText tournament_id))
          (\<lambda>tournament.
             if tournament = None then ret False
             else
               (let fields = filter (\<lambda>(key, value). key \<noteq> ''tournament_id'') (dump_reward data)
                in if fields = [] then ret True
                   else bind_io (lift (bind_params fields))
                          (\<lambda>values.
                             seq_io (execute (\<lambda>t. sql_update Tournaments values
                                                      (by_tournament (SText tournament_id))))
                               (seq_io commit (ret True))))))
       is_sqlite_error
       (seq_io rollback (ret False))"

text \<open>
  The participants of a tournament are found through the index of the primary key
  \<^verbatim>\<open>(tournament_id, participant_id)\<close>, so they come in the order of their ids as texts.
\<close>

definition get_tournament_participants :: "sqlval \<Rightarrow> row list io" where
  "get_tournament_participants tournament_id =
     try_except
       (query (\<lambda>d. index_order ''participant_id''
                      (sql_select Tournament_participants (by_tournament tournament_id) d)))
       is_sqlite_error (ret [])"

definition by_participant :: "string \<Rightarrow> string \<Rightarrow> row \<Rightarrow> bool" where
  "by_participant tournament_id participant_id r =
     (sql_eq (col ''tournament_id'' r) (SText tournament_id)
      \<and> sql_eq (col ''participant_id'' r) (SText participant_id))"

definition add_tournament_participant :: "string \<Rightarrow> pyval \<Rightarrow> bool \<Rightarrow> pyval \<Rightarrow> bool io" where
  "add_tournament_participant tournament_id participant_id0 is_bot bot_name =
     (let participant_id = py_str participant_id0 in
      try_except
        (bind_io (get_tournament (SText tournament_id))
           (\<lambda>tournament.
              if tournament = None then ret False
              else
                seq_io (if \<not> is_bot then seq_io (get_user (PStr participant_id)) (ret ()) else ret ())
                  (bind_io (lift (bind_params
                             [(''tournament_id'', PStr tournament_id),
                              (''participant_id'', PStr participant_id),
                              (''is_bot'', PInt (if is_bot then 1 else 0)),
                              (''bot_name'', bot_name)]))
                     (\<lambda>values.
                        seq_io (execute (sql_insert_or_replace Tournament_participants values))
                          (seq_io commit (ret True))))))
        is_sqlite_error
        (seq_io rollback (ret False)))"

definition remove_tournament_participant :: "string \<Rightarrow> pyval \<Rightarrow> bool io" where
  "remove_tournament_participant tournament_id participant_id0 =
     (let participant_id = py_str participant_id0 in
      try_except
        (seq_io (execute (\<lambda>t. sql_delete Tournament_participants
                                 (by_participant tournament_id participant_id)))
           (seq_io commit (ret True)))
        is_sqlite_error
        (seq_io rollback (ret False)))"

section \<open>Document view (\<^verbatim>\<open>db_integration.py\<close>)\<close>

text \<open>
  A document is a dict from entity id to an entry; \<^verbatim>\<open>result[k] = v\<close> is \<open>dict_set\<close>.
  \<^verbatim>\<open>row.get(k, default)\<close> on the dict of a row: every column of the table is a key.
\<close>

type_synonym document = "(string \<times> pyval) list"

definition row_get :: "row \<Rightarrow> string \<Rightarrow> pyval \<Rightarrow> pyval" where
  "row_get r k dflt = (case map_of r k of Some v \<Rightarrow> py_of_sql v | None \<Rightarrow> dflt)"

fun fold_io :: "('a \<Rightarrow> 's \<Rightarrow> 's io) \<Rightarrow> 'a list \<Rightarrow> 's \<Rightarrow> 's io" where
  "fold_io f [] s = ret s"
| "fold_io f (x # xs) s = bind_io (f x s) (fold_io f xs)"

text \<open>\<^verbatim>\<open>k in v\<close> and \<^verbatim>\<open>v[k]\<close> for a str \<open>k\<close> and any value \<open>v\<close>.\<close>

fun is_substring :: "string \<Rightarrow> string \<Rightarrow> bool" where
  "is_substring p [] = (p = [])"
| "is_substring p (c # cs) = (take (length p) (c # cs) = p \<or> is_substring p cs)"

definition contains :: "pyval \<Rightarrow> string \<Rightarrow> exn + bool" where
  "contains v k =
     (case v of
        PDict kvs \<Rightarrow> Inr (has_key kvs k)
      | PList xs \<Rightarrow> Inr (in_list (PStr k) xs)
      | PStr s \<Rightarrow> Inr (is_substring k s)
      | _ \<Rightarrow> Inl TypeError)"

definition subscript :: "pyval \<Rightarrow> string \<Rightarrow> exn + pyval" where
  "subscript v k =
     (case v of
        PDict kvs \<Rightarrow> (case map_of kvs k of Some x \<Rightarrow> Inr x | None \<Rightarrow> Inl KeyError)
      | _ \<Rightarrow> Inl TypeError)"

text \<open>
  \<^verbatim>\<open>for key in [...]: if key in src: dst[key] = src[key]\<close>, the copy of the reward keys
  in both directions.
\<close>

definition reward_keys :: "string list" where
  "reward_keys = [''add_money'', ''set_money'', ''rem_money'', ''reward_title'']"

fun copy_keys :: "string list \<Rightarrow> pyval \<Rightarrow> (string \<times> pyval) list \<Rightarrow> exn + (string \<times> pyval) list" where
  "copy_keys [] src dst = Inr dst"
| "copy_keys (key # keys) src dst =
     (case contains src key of
        Inl e \<Rightarrow> Inl e
      | Inr False \<Rightarrow> copy_keys keys src dst
      | Inr True \<Rightarrow> (case subscript src key of
                       Inl e \<Rightarrow> Inl e
                     | Inr x \<Rightarrow> copy_keys keys src (dict_set key x dst)))"

subsection \<open>Sects\<close>

definition sect_name :: "string \<Rightarrow> pyval" where
  "sect_name sect_id = PStr (''Sect '' @ sect_id)"

definition sect_entry :: "string \<Rightarrow> row \<Rightarrow> row list \<Rightarrow> pyval" where
  "sect_entry sect_id sect_data members =
     PDict [(''name'', row_get sect_data ''name'' (sect_name sect_id)),
            (''leader'', row_get sect_data ''leader_id'' PNone),
            (''description'', row_get sect_data ''description'' (PStr [])),
            (''level'', row_get sect_data ''level'' (PInt 1)),
            (''wealth'', row_get sect_data ''wealth'' (PInt 0)),
            (''members'', PList (map (\<lambda>member. py_of_sql (col ''user_id'' member)) members))]"

text \<open>
  The ids are read from the store; one that is not a text finds no sect, and the
  \<^verbatim>\<open>.get\<close> on the \<^verbatim>\<open>None\<close> that \<^verbatim>\<open>get_sect\<close> returns raises \<^verbatim>\<open>AttributeError\<close>.
\<close>

definition get_sects_data :: "document io" where
  "get_sects_data =
     try_except
       (bind_io (query (\<lambda>d. map (col ''sect_id'') (index_order ''sect_id'' (sects d))))
          (\<lambda>sect_ids.
             fold_io
               (\<lambda>sect_id result.
                  bind_io (get_sect sect_id)
                    (\<lambda>sect.
                       bind_io (get_sect_members sect_id)
                         (\<lambda>members.
                            case sect of
                              None \<Rightarrow> raise AttributeError
                            | Some sect_data \<Rightarrow>
                                (let key = py_str (py_of_sql sect_id)
                                 in ret (dict_set key (sect_entry key sect_data members) result)))))
               sect_ids []))
       is_exception
       (ret [])"

definition members_of :: "(string \<times> pyval) list \<Rightarrow> pyval list option" where
  "members_of sect_data =
     (case map_of sect_data ''members'' of Some (PList ms) \<Rightarrow> Some ms | _ \<Rightarrow> None)"

definition sect_update_data :: "string \<Rightarrow> (string \<times> pyval) list \<Rightarrow> (string \<times> pyval) list" where
  "sect_update_data sect_id sect_data =
     [(''name'', py_get sect_data ''name'' (sect_name sect_id)),
      (''leader_id'', py_get sect_data ''leader'' PNone),
      (''description'', py_get sect_data ''description'' (PStr [])),
      (''level'', py_get sect_data ''level'' (PInt 1)),
      (''wealth'', py_get sect_data ''wealth'' (PInt 0))]"

definition sync_existing_sect :: "string \<Rightarrow> (string \<times> pyval) list \<Rightarrow> unit io" where
  "sync_existing_sect sect_id sect_data =
     seq_io (update_sect sect_id (sect_update_data sect_id sect_data))
       (case members_of sect_data of
          None \<Rightarrow> ret ()
        | Some members \<Rightarrow>
            bind_io (get_sect_members (SText sect_id))
              (\<lambda>current_members.
                 let current_member_ids = map (\<lambda>member. py_of_sql (col ''user_id'' member)) current_members
                 in seq_io
                      (for_each members
                         (\<lambda>member_id.
                            bind_io (lift (in_set member_id current_member_ids))
                              (\<lambda>present.
                                 if present then ret ()
                                 else
                                   (let role = (if py_eq member_id (py_get sect_data ''leader'' PNone)
                                                then ''leader'' else ''member'')
                                    in seq_io (add_sect_member sect_id member_id role) (ret ())))))
                      (for_each current_members
                         (\<lambda>member.
                            if in_list (py_of_sql (col ''user_id'' member)) members then ret ()
                            else seq_io (remove_sect_member sect_id (py_of_sql (col ''user_id'' member)))
                                   (ret ())))))"

definition create_new_sect :: "string \<Rightarrow> (string \<times> pyval) list \<Rightarrow> unit io" where
  "create_new_sect sect_id sect_data =
     seq_io (create_sect sect_id
               (py_get sect_data ''name'' (sect_name sect_id))
               (py_get sect_data ''leader'' (PStr ''0''))
               (py_get sect_data ''description'' (PStr []))
               (py_get sect_data ''level'' (PInt 1))
               (py_get sect_data ''wealth'' (PInt 0)))
       (case members_of sect_data of
          None \<Rightarrow> ret ()
        | Some members \<Rightarrow>
            for_each members
              (\<lambda>member_id.
                 if py_eq member_id (py_get sect_data ''leader'' PNone) then ret ()
                 else seq_io (add_sect_member sect_id member_id ''member'') (ret ())))"

text \<open>
  \<^verbatim>\<open>existing_sects\<close> is a set: it is walked once per id, in the order of the rows here.
  An id that is not a text is no key of the document, so its DELETE is issued, and
  matches nothing when the id is NULL.
\<close>

definition in_document :: "sqlval \<Rightarrow> document \<Rightarrow> bool" where
  "in_document ident data = (case ident of SText s \<Rightarrow> has_key data s | _ \<Rightarrow> False)"

definition save_sects_data :: "document \<Rightarrow> unit io" where
  "save_sects_data data =
     try_except
       (bind_io (query (\<lambda>d. map (col ''sect_id'') (index_order ''sect_id'' (sects d))))
          (\<lambda>existing_sects.
             seq_io
               (for_each data
                  (\<lambda>(sect_id, entry).
                     bind_io (lift (as_dict entry))
                       (\<lambda>sect_data.
                          if SText sect_id \<in> set existing_sects
                          then sync_existing_sect sect_id sect_data
                          else create_new_sect sect_id sect_data)))
               (seq_io
                  (for_each (remdups existing_sects)
                     (\<lambda>sect_id.
                        if in_document sect_id data then ret ()
                        else execute (\<lambda>t. sql_delete Sects (by_sect sect_id))))
                  commit)))
       is_exception
       rollback"

subsection \<open>Tournaments\<close>

definition tournament_title :: "string \<Rightarrow> pyval" where
  "tournament_title tournament_id = PStr (''Tournament '' @ tournament_id)"

text \<open>
  One participant of the projection: the id goes through \<^verbatim>\<open>int()\<close> only inside the
  branch taken for a bot that has a name; \<^verbatim>\<open>ValueError\<close> is passed over, and
  \<^verbatim>\<open>int(None)\<close> raises \<^verbatim>\<open>TypeError\<close>. The state is the list of participants and the
  dict of bot names built so far; a name is filed under the id as stored.
\<close>

definition project_participant ::
  "row \<Rightarrow> pyval list \<times> (string \<times> pyval) list \<Rightarrow> exn + pyval list \<times> (string \<times> pyval) list" where
  "project_participant participant acc =
     (let participant_id = py_of_sql (col ''participant_id'' participant);
          (ids, bot_names) = acc
      in if sql_truthy (col ''is_bot'' participant) \<and> sql_truthy (col ''bot_name'' participant)
         then
           (let bot_names' = dict_set (py_str participant_id)
                               (py_of_sql (col ''bot_name'' participant)) bot_names
            in case py_int participant_id of
                 Inr i \<Rightarrow> Inr (ids @ [PInt i], bot_names')
               | Inl ValueError \<Rightarrow> Inr (ids @ [participant_id], bot_names')
               | Inl e \<Rightarrow> Inl e)
         else Inr (ids @ [participant_id], bot_names))"

fun project_participants ::
  "row list \<Rightarrow> pyval list \<times> (string \<times> pyval) list \<Rightarrow> exn + pyval list \<times> (string \<times> pyval) list" where
  "project_participants [] acc = Inr acc"
| "project_participants (p # ps) acc =
     (case project_participant p acc of Inl e \<Rightarrow> Inl e | Inr acc' \<Rightarrow> project_participants ps acc')"

definition tournament_entry :: "string \<Rightarrow> row \<Rightarrow> pyval \<Rightarrow> row list \<Rightarrow> exn + pyval" where
  "tournament_entry tournament_id tournament_data reward_data participants =
     (let entry = [(''title'', row_get tournament_data ''title'' (tournament_title tournament_id)),
                   (''host'', row_get tournament_data ''host_id'' PNone),
                   (''description'', row_get tournament_data ''description'' (PStr [])),
                   (''status'', row_get tournament_data ''status'' (PStr ''recruiting'')),
                   (''participants'', PList [])];
          entry1 = (if sql_truthy (col ''winner_id'' tournament_data)
                    then dict_set ''winner'' (py_of_sql (col ''winner_id'' tournament_data)) entry
                    else entry)
      in case copy_keys reward_keys reward_data entry1 of
           Inl e \<Rightarrow> Inl e
         | Inr entry2 \<Rightarrow>
             (case project_participants participants ([], []) of
                Inl e \<Rightarrow> Inl e
              | Inr (ids, bot_names) \<Rightarrow>
                  (let entry3 = dict_set ''participants'' (PList ids) entry2
                   in Inr (PDict (if bot_names \<noteq> []
                                  then dict_set ''bot_names'' (PDict bot_names) entry3
                                  else entry3)))))"

definition get_tournaments_data :: "document io" where
  "get_tournaments_data =
     try_except
       (bind_io (query (\<lambda>d. map (col ''tournament_id'') (index_order ''tournament_id'' (tournaments d))))
          (\<lambda>tournament_ids.
             fold_io
               (\<lambda>tournament_id result.
                  bind_io (get_tournament tournament_id)
                    (\<lambda>tournament.
                       bind_io (get_tournament_participants tournament_id)
                         (\<lambda>participants.
                            case tournament of
                              None \<Rightarrow> raise AttributeError
                            | Some (tournament_data, reward_data) \<Rightarrow>
                                (let key = py_str (py_of_sql tournament_id)
                                 in bind_io (lift (tournament_entry key tournament_data
                                                     reward_data participants))
                                      (\<lambda>entry. ret (dict_set key entry result))))))
               tournament_ids []))
       is_exception
       (ret [])"

text \<open>
  The write side classifies a participant: a bot is an \<^verbatim>\<open>int\<close> below zero
  (\<^verbatim>\<open>True\<close> and \<^verbatim>\<open>False\<close> are ints, and are not below zero), and its name is looked up
  under the id as text.
\<close>

definition is_bot_id :: "pyval \<Rightarrow> bool" where
  "is_bot_id participant_id = (case participant_id of PInt i \<Rightarrow> i < 0 | _ \<Rightarrow> False)"

definition bot_name_of :: "(string \<times> pyval) list \<Rightarrow> pyval \<Rightarrow> exn + pyval" where
  "bot_name_of tournament_data participant_id =
     (if is_bot_id participant_id \<and> has_key tournament_data ''bot_names''
      then (case as_dict (py_get tournament_data ''bot_names'' PNone) of
              Inl e \<Rightarrow> Inl e
            | Inr names \<Rightarrow> Inr (py_get names (py_str participant_id) PNone))
      else Inr PNone)"

definition participants_of :: "(string \<times> pyval) list \<Rightarrow> pyval list option" where
  "participants_of tournament_data =
     (case map_of tournament_data ''participants'' of Some (PList ps) \<Rightarrow> Some ps | _ \<Rightarrow> None)"

definition status_and_winner :: "(string \<times> pyval) list \<Rightarrow> (string \<times> pyval) list" where
  "status_and_winner tournament_data =
     [(''status'', py_get tournament_data ''status'' (PStr ''recruiting''))]
     @ (case map_of tournament_data ''winner'' of Some w \<Rightarrow> [(''winner_id'', w)] | None \<Rightarrow> [])"

definition create_new_tournament ::
  "string \<Rightarrow> (string \<times> pyval) list \<Rightarrow> (string \<times> pyval) list \<Rightarrow> unit io" where
  "create_new_tournament tournament_id tournament_data reward_data =
     seq_io (create_tournament tournament_id
               (py_get tournament_data ''host'' (PStr ''0''))
               (py_get tournament_data ''title'' (tournament_title tournament_id))
               (py_get tournament_data ''description'' (PStr []))
               reward_data)
       (seq_io (update_tournament tournament_id (status_and_winner tournament_data))
          (case participants_of tournament_data of
             None \<Rightarrow> ret ()
           | Some participants \<Rightarrow>
               for_each participants
                 (\<lambda>participant_id.
                    bind_io (lift (bot_name_of tournament_data participant_id))
                      (\<lambda>bot_name.
                         seq_io (add_tournament_participant tournament_id
                                   (PStr (py_str participant_id)) (is_bot_id participant_id) bot_name)
                           (ret ())))))"

definition sync_existing_tournament ::
  "string \<Rightarrow> (string \<times> pyval) list \<Rightarrow> (string \<times> pyval) list \<Rightarrow> unit io" where
  "sync_existing_tournament tournament_id tournament_data reward_data =
     seq_io (update_tournament tournament_id
               ([(''title'', py_get tournament_data ''title'' (tournament_title tournament_id)),
                 (''host_id'', py_get tournament_data ''host'' PNone),
                 (''description'', py_get tournament_data ''description'' (PStr [])),
                 (''status'', py_get tournament_data ''status'' (PStr ''recruiting'')),
                 (''reward_data'', PDict reward_data)]
                @ (case map_of tournament_data ''winner'' of
                     Some w \<Rightarrow> [(''winner_id'', w)] | None \<Rightarrow> [])))
       (case participants_of tournament_data of
          None \<Rightarrow> ret ()
        | Some participants \<Rightarrow>
            bind_io (get_tournament_participants (SText tournament_id))
              (\<lambda>current_participants.
                 let current_participant_ids =
                       map (\<lambda>p. py_of_sql (col ''participant_id'' p)) current_participants
                 in seq_io
                      (for_each participants
                         (\<lambda>participant_id.
                            bind_io (lift (bot_name_of tournament_data participant_id))
                              (\<lambda>bot_name.
                                 if list_ex (py_eq (PStr (py_str participant_id))) current_participant_ids
                                 then ret ()
                                 else seq_io (add_tournament_participant tournament_id
                                                (PStr (py_str participant_id))
                                                (is_bot_id participant_id) bot_name)
                                        (ret ()))))
                      (for_each current_participants
                         (\<lambda>participant.
                            let p_id = py_of_sql (col ''participant_id'' participant)
                            in if in_list p_id (map (\<lambda>p. PStr (py_str p)) participants) then ret ()
                               else seq_io (remove_tournament_participant tournament_id p_id)
                                      (ret ())))))"

definition save_tournaments_data :: "document \<Rightarrow> unit io" where
  "save_tournaments_data data =
     try_except
       (bind_io (query (\<lambda>d. map (col ''tournament_id'') (index_order ''tournament_id'' (tournaments d))))
          (\<lambda>existing_tournaments.
             seq_io
               (for_each data
                  (\<lambda>(tournament_id, entry).
                     bind_io (lift (copy_keys reward_keys entry []))
                       (\<lambda>reward_data.
                          bind_io (lift (as_dict entry))
                            (\<lambda>tournament_data.
                               if SText tournament_id \<in> set existing_tournaments
                               then sync_existing_tournament tournament_id tournament_data reward_data
                               else create_new_tournament tournament_id tournament_data reward_data))))
               (seq_io
                  (for_each (remdups existing_tournaments)
                     (\<lambda>tournament_id.
                        if in_document tournament_id data then ret ()
                        else execute (\<lambda>t. sql_delete Tournaments (by_tournament tournament_id))))
                  commit)))
       is_exception
       rollback"

section \<open>Migration (\<^verbatim>\<open>migrate_json_to_db\<close>)\<close>

text \<open>
  The input is what \<^verbatim>\<open>load_json_file\<close> returns for each of the five legacy files: the
  parsed document, or the empty dict for a file that is missing or is not JSON.
\<close>

record legacy =
  economy_json :: pyval
  jobs_json :: pyval
  store_json :: pyval
  sects_json :: pyval
  tournaments_json :: pyval

definition migrate_user_jobs :: "string \<Rightarrow> (string \<times> pyval) list \<Rightarrow> unit io" where
  "migrate_user_jobs user_id data =
     (case map_of data ''jobs'' of
        Some (PDict job_entries) \<Rightarrow>
          for_each job_entries
            (\<lambda>(job_name, job_data).
               case job_data of
                 PDict jd \<Rightarrow>
                   seq_io (update_user_job (PStr user_id) job_name
                             [(''xp'', py_get jd ''xp'' (PInt 0)),
                              (''rank'', py_get jd ''rank'' (PStr ''apprentice'')),
                              (''last_work'', py_get jd ''last_work'' PNone)])
                     (ret ())
               | _ \<Rightarrow> ret ())
      | _ \<Rightarrow> ret ())"

definition migrate_inventory :: "string \<Rightarrow> (string \<times> pyval) list \<Rightarrow> unit io" where
  "migrate_inventory user_id data =
     (case map_of data ''inventory'' of
        Some (PList items) \<Rightarrow>
          for_each items
            (\<lambda>item. case item of
                       PStr item_name \<Rightarrow>
                         seq_io (add_inventory_item (PStr user_id) item_name 1 ''common'' PNone)
                           (ret ())
                     | _ \<Rightarrow> ret ())
      | _ \<Rightarrow> ret ())"

definition migrate_economy :: "pyval \<Rightarrow> unit io" where
  "migrate_economy economy_data =
     bind_io (lift (as_dict economy_data))
       (\<lambda>users_doc.
          for_each users_doc
            (\<lambda>(user_id, entry).
               bind_io (lift (as_dict entry))
                 (\<lambda>data.
                    seq_io (update_user (PStr user_id)
                              [(''cash'', py_get data ''cash'' (PInt 0)),
                               (''bank'', py_get data ''bank'' (PInt 0)),
                               (''job'', py_get data ''job'' PNone),
                               (''last_cultivate'', py_get data ''last_cultivate'' PNone),
                               (''last_collect'', py_get data ''last_collect'' PNone),
                               (''message_count'', py_get data ''message_count'' (PInt 0))])
                      (seq_io (migrate_inventory user_id data)
                         (migrate_user_jobs user_id data)))))"

definition migrate_jobs :: "pyval \<Rightarrow> unit io" where
  "migrate_jobs jobs_data =
     bind_io (lift (as_dict jobs_data))
       (\<lambda>jobs_doc.
          for_each jobs_doc
            (\<lambda>(job_name, pay_range).
               case pay_range of
                 PList (lo # hi # _) \<Rightarrow> seq_io (set_job job_name lo hi) (ret ())
               | _ \<Rightarrow> ret ()))"

definition store_columns :: "string list" where
  "store_columns = [''price'', ''description'', ''stock'', ''min_rank'', ''rarity'']"

definition migrate_store :: "pyval \<Rightarrow> unit io" where
  "migrate_store store_data =
     bind_io (lift (as_dict store_data))
       (\<lambda>store_doc.
          for_each store_doc
            (\<lambda>(item_name, entry).
               case entry of
                 PDict item_data \<Rightarrow>
                   (let metadata = filter (\<lambda>(key, value). key \<notin> set store_columns) item_data
                    in seq_io (set_store_item item_name
                                 (py_get item_data ''price'' (PInt 0))
                                 (py_get item_data ''description'' (PStr []))
                                 (py_get item_data ''stock'' (PInt (- 1)))
                                 (py_get item_data ''min_rank'' (PInt 0))
                                 (py_get item_data ''rarity'' (PStr ''common''))
                                 (PDict metadata))
                         (ret ()))
               | _ \<Rightarrow> ret ()))"

definition migrate_sects :: "pyval \<Rightarrow> unit io" where
  "migrate_sects sects_data =
     bind_io (lift (as_dict sects_data))
       (\<lambda>sects_doc.
          for_each sects_doc
            (\<lambda>(sect_id, entry).
               case entry of
                 PDict sect_data \<Rightarrow> create_new_sect sect_id sect_data
               | _ \<Rightarrow> ret ()))"

text \<open>
  The reward keys of a tournament present in the legacy entry, in the order the code asks
  for them.
\<close>

definition reward_of :: "(string \<times> pyval) list \<Rightarrow> (string \<times> pyval) list" where
  "reward_of tournament_data =
     concat (map (\<lambda>key. case map_of tournament_data key of Some v \<Rightarrow> [(key, v)] | None \<Rightarrow> [])
                 reward_keys)"

definition migrate_tournaments :: "pyval \<Rightarrow> unit io" where
  "migrate_tournaments tournaments_data =
     bind_io (lift (as_dict tournaments_data))
       (\<lambda>tournaments_doc.
          for_each tournaments_doc
            (\<lambda>(tournament_id, entry).
               case entry of
                 PDict tournament_data \<Rightarrow>
                   seq_io (create_tournament tournament_id
                             (py_get tournament_data ''host'' (PStr ''0''))
                             (py_get tournament_data ''title'' (tournament_title tournament_id))
                             (py_get tournament_data ''description'' (PStr []))
                             (reward_of tournament_data))
                     (seq_io (update_tournament tournament_id (status_and_winner tournament_data))
                        (case participants_of tournament_data of
                           None \<Rightarrow> ret ()
                         | Some participants \<Rightarrow>
                             for_each participants
                               (\<lambda>participant_id.
                                  bind_io (lift (bot_name_of tournament_data participant_id))
                                    (\<lambda>bot_name.
                                       seq_io (add_tournament_participant tournament_id
                                                 participant_id (is_bot_id participant_id) bot_name)
                                         (ret ())))))
               | _ \<Rightarrow> ret ()))"

text \<open>
  The five steps run inside one \<^verbatim>\<open>try\<close>: the first exception that leaves a step ends
  the run with \<^verbatim>\<open>False\<close>; there is no rollback in the handler.
\<close>

definition migrate_json_to_db :: "legacy \<Rightarrow> bool io" where
  "migrate_json_to_db files =
     try_except
       (seq_io (migrate_economy (economy_json files))
          (seq_io (migrate_jobs (jobs_json files))
             (seq_io (migrate_store (store_json files))
                (seq_io (migrate_sects (sects_json files))
                   (seq_io (migrate_tournaments (tournaments_json files))
                      (ret True))))))
       is_exception
       (ret False)"

section \<open>Notions used in the statements\<close>

text \<open>The row the INSERT of \<^verbatim>\<open>get_user\<close> makes, and the SELECT it runs.\<close>

definition new_user_row :: "string \<Rightarrow> string \<Rightarrow> row" where
  "new_user_row user_id t =
     make_row Users [(''user_id'', SText user_id), (''cash'', SInt 0), (''bank'', SInt 0)] t"

definition find_user :: "string \<Rightarrow> db \<Rightarrow> row list" where
  "find_user user_id d = sql_select Users (by_user user_id) d"

text \<open>An empty store, and a connection on it with no failure ahead.\<close>

definition empty_db :: db where
  "empty_db =
     \<lparr>users = [], user_meta = [], inventory = [], inventory_seq = 0, jobs = [], user_jobs = [],
      sects = [], sect_members = [], store_items = [], tournaments = [],
      tournament_participants = []\<rparr>"

definition fresh_conn :: conn where
  "fresh_conn = \<lparr>live = empty_db, saved = empty_db, faults = [], now = ''2024-05-01 12:00:00''\<rparr>"

text \<open>What a call of \<^verbatim>\<open>get_user\<close> leaves in the tables when no statement fails.\<close>

definition ensure_user :: "string \<Rightarrow> string \<Rightarrow> db \<Rightarrow> db" where
  "ensure_user user_id t d =
     (if find_user user_id d = [] then d\<lparr>users := users d @ [new_user_row user_id t]\<rparr> else d)"




text \<open>
  Every row of \<^verbatim>\<open>users\<close> has the column \<open>k\<close>; and the rows of one user all hold a
  non-negative integer in it.
\<close>

definition users_have :: "string \<Rightarrow> db \<Rightarrow> bool" where
  "users_have k d = list_all (\<lambda>r. has_key r k) (users d)"

definition nonneg_balance :: "string \<Rightarrow> string \<Rightarrow> db \<Rightarrow> bool" where
  "nonneg_balance k user_id d =
     list_all (\<lambda>r. case col k r of SInt n \<Rightarrow> 0 \<le> n | _ \<Rightarrow> False) (find_user user_id d)"

text \<open>
  The legacy tournament of the specification's example, with participants 200, -1 and -2
  and a name for bot -1, as the only content of the legacy files.
\<close>

definition golem_tournaments :: pyval where
  "golem_tournaments =
     PDict [(''t1'', PDict [(''host'', PStr ''100''), (''title'', PStr ''Clash''),
                            (''participants'', PList [PInt 200, PInt (- 1), PInt (- 2)]),
                            (''bot_names'', PDict [(''-1'', PStr ''Iron Golem'')])])]"

definition participant_view :: "row \<Rightarrow> sqlval \<times> sqlval \<times> sqlval" where
  "participant_view r = (col ''participant_id'' r, col ''is_bot'' r, col ''bot_name'' r)"

text \<open>
  The migration as a list of steps, and the run the amended C3 describes: the steps are
  taken in order, and the first one that raises ends the run with False, in the state it
  left.
\<close>

definition steps :: "legacy \<Rightarrow> unit io list" where
  "steps files =
     [migrate_economy (economy_json files), migrate_jobs (jobs_json files),
      migrate_store (store_json files), migrate_sects (sects_json files),
      migrate_tournaments (tournaments_json files)]"

fun run_steps :: "unit io list \<Rightarrow> conn \<Rightarrow> bool \<times> conn" where
  "run_steps [] c = (True, c)"
| "run_steps (m # ms) c =
     (case m c of (Inl e, c') \<Rightarrow> (False, c') | (Inr u, c') \<Rightarrow> run_steps ms c')"

text \<open>
  Legacy files in which one user's cash does not fit 64 bits, and one sect is defined.
\<close>

definition rich_legacy :: legacy where
  "rich_legacy =
     \<lparr>economy_json = PDict [(''u1'', PDict [(''cash'', PInt 9223372036854775808)])],
      jobs_json = PDict [],
      store_json = PDict [],
      sects_json = PDict [(''s1'', PDict [(''name'', PStr ''Iron Sect''), (''leader'', PStr ''100'')])],
      tournaments_json = PDict []\<rparr>"

text \<open>Legacy files in which only a sect is defined.\<close>

definition plain_legacy :: legacy where
  "plain_legacy =
     \<lparr>economy_json = PDict [],
      jobs_json = PDict [],
      store_json = PDict [],
      sects_json = PDict [(''s1'', PDict [(''name'', PStr ''Iron Sect''), (''leader'', PStr ''100'')])],
      tournaments_json = PDict []\<rparr>"

text \<open>
  A connection seen after a commit, and a connection whose tables, open and committed,
  are both \<open>d\<close>: the shape every store operation leaves when it succeeds.
\<close>

definition committed :: "conn \<Rightarrow> conn" where
  "committed c = c\<lparr>saved := live c\<rparr>"

definition at_db :: "conn \<Rightarrow> db \<Rightarrow> conn" where
  "at_db c d = c\<lparr>live := d, saved := d\<rparr>"

text \<open>
  The membership row that \<^verbatim>\<open>add_sect_member\<close> writes, and what its INSERT OR REPLACE
  and the DELETE of \<^verbatim>\<open>remove_sect_member\<close> do to the tables.
\<close>

definition member_row :: "string \<Rightarrow> string \<Rightarrow> string \<Rightarrow> string \<Rightarrow> row" where
  "member_row sect_id user_id role t =
     [(''sect_id'', SText sect_id), (''user_id'', SText user_id), (''role'', SText role),
      (''joined_at'', apply_affinity ANumeric (SText t))]"

definition put_member :: "string \<Rightarrow> string \<Rightarrow> string \<Rightarrow> string \<Rightarrow> db \<Rightarrow> db" where
  "put_member sect_id user_id role t d =
     (ensure_user user_id t d)
       \<lparr>sect_members := filter (\<lambda>m. \<not> by_member sect_id user_id m) (sect_members d)
                          @ [member_row sect_id user_id role t]\<rparr>"

definition drop_member :: "string \<Rightarrow> string \<Rightarrow> db \<Rightarrow> db" where
  "drop_member sect_id user_id d =
     d\<lparr>sect_members := filter (\<lambda>m. \<not> by_member sect_id user_id m) (sect_members d)\<rparr>"

text \<open>
  The user ids of the membership rows of a sect, as stored; and the state in which each of
  these rows has a text as user id and that user has a row in \<^verbatim>\<open>users\<close>, which is what
  \<^verbatim>\<open>add_sect_member\<close> establishes when it adds a member.
\<close>

definition member_ids :: "string \<Rightarrow> db \<Rightarrow> sqlval list" where
  "member_ids sect_id d = map (col ''user_id'') (filter (by_sect (SText sect_id)) (sect_members d))"

definition members_visible :: "string \<Rightarrow> db \<Rightarrow> bool" where
  "members_visible sect_id d =
     list_all (\<lambda>m. case col ''user_id'' m of SText a \<Rightarrow> find_user a d \<noteq> [] | _ \<Rightarrow> False)
       (filter (by_sect (SText sect_id)) (sect_members d))"

text \<open>The role \<^verbatim>\<open>save_sects_data\<close> gives a member it adds to an existing sect.\<close>

definition role_for :: "(string \<times> pyval) list \<Rightarrow> string \<Rightarrow> string" where
  "role_for sect_data a =
     (if py_eq (PStr a) (py_get sect_data ''leader'' PNone) then ''leader'' else ''member'')"

text \<open>The effect of an UPDATE of the rows of one sect.\<close>

definition sect_rows_updated :: "string \<Rightarrow> row \<Rightarrow> db \<Rightarrow> db" where
  "sect_rows_updated s vals d =
     d\<lparr>sects := map (\<lambda>r. if by_sect (SText s) r then assign Sects vals r else r) (sects d)\<rparr>"

text \<open>
  The steps of the reconciliation as functions on the tables: what the loop over the
  document's members does for one id, what the loop over the current members does for
  one row, and what the loop over the stored sect ids does for one id.
\<close>

definition add_new :: "string \<Rightarrow> (string \<times> pyval) list \<Rightarrow> sqlval list \<Rightarrow> string \<Rightarrow> string \<Rightarrow> db \<Rightarrow> db" where
  "add_new s sect_data ids t a d =
     (if SText a \<in> set ids then d else put_member s a (role_for sect_data a) t d)"

definition drop_old :: "string \<Rightarrow> string list \<Rightarrow> row \<Rightarrow> db \<Rightarrow> db" where
  "drop_old s ms member d =
     (case col ''user_id'' member of
        SText a \<Rightarrow> if a \<in> set ms then d else drop_member s a d
      | _ \<Rightarrow> d)"

definition drop_sects :: "document \<Rightarrow> sqlval \<Rightarrow> db \<Rightarrow> db" where
  "drop_sects data ident d =
     (if in_document ident data then d else d\<lparr>sects := filter (\<lambda>r. \<not> by_sect ident r) (sects d)\<rparr>)"

text \<open>
  A store with two sects: s1, led by B, with the members A, B and C, who joined on
  2024-01-01, and s2; a connection on it with no failure ahead; and an entry for s1 that
  lists the members B, C and D.
\<close>

definition guild_row :: "string \<Rightarrow> string \<Rightarrow> row" where
  "guild_row sect_id name =
     [(''sect_id'', SText sect_id), (''name'', SText name), (''leader_id'', SText ''B''),
      (''description'', SText []), (''created_at'', SText ''2024-01-01 00:00:00''),
      (''level'', SInt 1), (''wealth'', SInt 0), (''max_members'', SInt 10)]"

definition guild_db :: db where
  "guild_db =
     empty_db\<lparr>users := map (\<lambda>a. new_user_row a ''2024-01-01 00:00:00'') [''A'', ''B'', ''C''],
              sects := [guild_row ''s1'' ''Guild'', guild_row ''s2'' ''Order''],
              sect_members := [member_row ''s1'' ''A'' ''member'' ''2024-01-01 00:00:00'',
                               member_row ''s1'' ''B'' ''leader'' ''2024-01-01 00:00:00'',
                               member_row ''s1'' ''C'' ''member'' ''2024-01-01 00:00:00'',
                               member_row ''s2'' ''B'' ''leader'' ''2024-01-01 00:00:00'']\<rparr>"

definition guild_conn :: conn where
  "guild_conn = \<lparr>live = guild_db, saved = guild_db, faults = [], now = ''2024-05-01 12:00:00''\<rparr>"

definition guild_entry :: "(string \<times> pyval) list" where
  "guild_entry =
     [(''name'', PStr ''Guild''), (''leader'', PStr ''B''), (''description'', PStr []),
      (''level'', PInt 1), (''wealth'', PInt 0),
      (''members'', PList [PStr ''B'', PStr ''C'', PStr ''D''])]"

section \<open>Proofs\<close>

subsection \<open>Running statements when nothing fails\<close>

lemmas io_defs = ret_def raise_def lift_def bind_io_def seq_io_def try_except_def
  execute_def query_def commit_def rollback_def is_sqlite_error_def is_exception_def

lemma step_faults_nil [simp]: "faults c = [] \<Longrightarrow> step_faults c = c"
  by (simp add: step_faults_def)

lemma not_faulty_nil [simp]: "faults c = [] \<Longrightarrow> \<not> faulty c"
  by (simp add: faulty_def)

subsection \<open>\<^verbatim>\<open>get_user\<close>\<close>





lemma get_user_cases:
  "(\<exists>user c1. get_user uid c = (Inr user, c1)
       \<and> (user = zero_user (py_str uid) \<or> user \<in> set (users (live c))))
   \<or> (\<exists>c1. get_user uid c = (Inl SqliteError, c1))"
proof (cases "sql_select Users (by_user (py_str uid)) (live c)")
  case Nil
  then show ?thesis
    by (auto simp: get_user_def io_defs Let_def split: option.splits)
next
  case (Cons u us)
  then have "u \<in> set (filter (by_user (py_str uid)) (users (live c)))"
    by (simp add: sql_select_def)
  then have "u \<in> set (users (live c))" by simp
  then show ?thesis using Cons
    by (auto simp: get_user_def io_defs Let_def)
qed










subsection \<open>Removing what is not there\<close>

lemma faulty_step_nil [simp]: "faults c = [] \<Longrightarrow> faults (step_faults c) = []"
  by (simp add: step_faults_def)

text \<open>
  C4, amended. For \<^verbatim>\<open>remove_sect_member\<close> and \<^verbatim>\<open>remove_tournament_participant\<close> a target
  that is not there is no error: when neither the DELETE nor the commit raises they
  answer True and leave the tables as they were (the commit only closes the
  transaction), and they answer False only after a storage error. \<^verbatim>\<open>remove_inventory_item\<close>
  answers False, with nothing changed, when the SELECT runs and finds no matching item.
\<close>

theorem removals_of_absent_targets:
  "(fst (remove_sect_member sect_id uid c) = Inr False \<longrightarrow> faulty c \<or> faulty (step_faults c))
   \<and> (fst (remove_tournament_participant tournament_id pid c) = Inr False
        \<longrightarrow> faulty c \<or> faulty (step_faults c))
   \<and> (\<not> faulty c \<and> \<not> faulty (step_faults c)
        \<and> sql_select Sect_members (by_member sect_id (py_str uid)) (live c) = []
      \<longrightarrow> remove_sect_member sect_id uid c
            = (Inr True, (step_faults (step_faults c))\<lparr>saved := live c\<rparr>))
   \<and> (\<not> faulty c \<and> \<not> faulty (step_faults c)
        \<and> sql_select Tournament_participants (by_participant tournament_id (py_str pid)) (live c) = []
      \<longrightarrow> remove_tournament_participant tournament_id pid c
            = (Inr True, (step_faults (step_faults c))\<lparr>saved := live c\<rparr>))
   \<and> (\<not> faulty c
        \<and> sql_select Inventory
              (by_item (py_str uid) item_name
                 (case rarity of Some ra \<Rightarrow> if ra = [] then None else Some ra | None \<Rightarrow> None))
              (live c) = []
      \<longrightarrow> remove_inventory_item uid item_name quantity rarity c = (Inr False, step_faults c))"
proof -
  have flt: "\<And>p xs. filter p xs = [] \<Longrightarrow> filter (\<lambda>r. \<not> p r) xs = xs"
    by (simp add: filter_empty_conv)
  have del: "\<And>d. sql_select Sect_members (by_member sect_id (py_str uid)) d = []
      \<Longrightarrow> sql_delete Sect_members (by_member sect_id (py_str uid)) d = Some d"
    by (simp add: sql_select_def sql_delete_def flt)
  have del2: "\<And>d. sql_select Tournament_participants (by_participant tournament_id (py_str pid)) d = []
      \<Longrightarrow> sql_delete Tournament_participants (by_participant tournament_id (py_str pid)) d = Some d"
    by (simp add: sql_select_def sql_delete_def flt)
  have ok: "fst (remove_sect_member sect_id uid c) = Inr True"
    if "\<not> faulty c" "\<not> faulty (step_faults c)"
    using that by (simp add: remove_sect_member_def io_defs Let_def sql_delete_def step_faults_def faulty_def)
  have ok2: "fst (remove_tournament_participant tournament_id pid c) = Inr True"
    if "\<not> faulty c" "\<not> faulty (step_faults c)"
    using that
    by (simp add: remove_tournament_participant_def io_defs Let_def sql_delete_def step_faults_def faulty_def)
  show ?thesis
    apply (intro conjI impI)
    subgoal using ok by force
    subgoal using ok2 by force
    subgoal using del[of "live c"] by (simp add: remove_sect_member_def io_defs Let_def step_faults_def faulty_def)
    subgoal using del2[of "live c"] by (simp add: remove_tournament_participant_def io_defs Let_def step_faults_def faulty_def)
    subgoal by (simp add: remove_inventory_item_def io_defs Let_def)
    done
qed

text \<open>
  C4 as stated fails: on an empty store, with no storage error, removing an item the user
  does not hold returns False.
\<close>

theorem remove_missing_item_counterexample:
  "faults fresh_conn = []
   \<and> sql_select Inventory (by_item ''u1'' ''Sword'' None) (live fresh_conn) = []
   \<and> remove_inventory_item (PStr ''u1'') ''Sword'' 1 None fresh_conn = (Inr False, fresh_conn)"
  by (simp add: remove_inventory_item_def io_defs Let_def fresh_conn_def empty_db_def
        sql_select_def py_str_def step_faults_def faulty_def)

theorem removals_of_absent_targets_witness:
  "\<not> faulty fresh_conn \<and> \<not> faulty (step_faults fresh_conn)
   \<and> sql_select Sect_members (by_member ''s1'' ''u1'') (live fresh_conn) = []
   \<and> remove_sect_member ''s1'' (PStr ''u1'') fresh_conn = (Inr True, fresh_conn)
   \<and> sql_select Tournament_participants (by_participant ''t1'' ''u1'') (live fresh_conn) = []
   \<and> remove_tournament_participant ''t1'' (PStr ''u1'') fresh_conn = (Inr True, fresh_conn)
   \<and> remove_inventory_item (PStr ''u1'') ''Sword'' 1 None fresh_conn = (Inr False, fresh_conn)
   \<and> fst (remove_sect_member ''s1'' (PStr ''u1'') (fresh_conn\<lparr>faults := [False, True, False]\<rparr>)) = Inr False
   \<and> fst (remove_tournament_participant ''t1'' (PStr ''u1'') (fresh_conn\<lparr>faults := [False, True, False]\<rparr>))
       = Inr False
   \<and> (faulty (fresh_conn\<lparr>faults := [False, True, False]\<rparr>)
        \<or> faulty (step_faults (fresh_conn\<lparr>faults := [False, True, False]\<rparr>)))"
proof -
  have a: "\<not> faulty fresh_conn" "\<not> faulty (step_faults fresh_conn)"
    "sql_select Sect_members (by_member ''s1'' ''u1'') (live fresh_conn) = []"
    "sql_select Tournament_participants (by_participant ''t1'' ''u1'') (live fresh_conn) = []"
    "sql_select Inventory (by_item ''u1'' ''Sword'' None) (live fresh_conn) = []"
    "step_faults fresh_conn = fresh_conn" "fresh_conn\<lparr>saved := live fresh_conn\<rparr> = fresh_conn"
    "py_str (PStr ''u1'') = ''u1''"
    by (simp_all add: fresh_conn_def empty_db_def sql_select_def step_faults_def faulty_def py_str_def)
  have b: "fst (remove_sect_member ''s1'' (PStr ''u1'') (fresh_conn\<lparr>faults := [False, True, False]\<rparr>)) = Inr False"
    "fst (remove_tournament_participant ''t1'' (PStr ''u1'') (fresh_conn\<lparr>faults := [False, True, False]\<rparr>))
       = Inr False"
    by (simp_all add: remove_sect_member_def remove_tournament_participant_def io_defs Let_def
          sql_delete_def step_faults_def faulty_def)
  show ?thesis
    using removals_of_absent_targets[of "''s1''" "PStr ''u1''" fresh_conn "''t1''" "PStr ''u1''" "''Sword''" None 1]
      removals_of_absent_targets[of "''s1''" "PStr ''u1''" "fresh_conn\<lparr>faults := [False, True, False]\<rparr>" "''t1''" "PStr ''u1''" "''Sword''" None 1]
      a b
    by simp
qed

subsection \<open>\<^verbatim>\<open>update_user_job\<close>\<close>


lemma ensure_user_frame [simp]:
  "user_jobs (ensure_user s t d) = user_jobs d"
  "inventory (ensure_user s t d) = inventory d"
  "inventory_seq (ensure_user s t d) = inventory_seq d"
  "sects (ensure_user s t d) = sects d"
  "sect_members (ensure_user s t d) = sect_members d"
  "tournaments (ensure_user s t d) = tournaments d"
  "tournament_participants (ensure_user s t d) = tournament_participants d"
  by (simp_all add: ensure_user_def)




lemma py_str_PStr [simp]: "py_str (PStr s) = s"
  by (simp add: py_str_def)

lemma int64_0 [simp]: "int64 0"
  by (simp add: int64_def)

lemma aff_simps [simp]:
  "apply_affinity AText (SText s) = SText s"
  "apply_affinity AText SNull = SNull"
  "apply_affinity a (SInt i) = (if a = AText then SText (string_of_int i) else SInt i)"
  "apply_affinity AInteger SNull = SNull"
  "apply_affinity ANumeric SNull = SNull"
  by (auto simp: apply_affinity_def split: affinity.splits)












subsection \<open>\<^verbatim>\<open>add_inventory_item\<close>\<close>

lemma col_set_col_other: "k \<noteq> k' \<Longrightarrow> col k (set_col k' v r) = col k r"
  by (induction r) (auto simp: col_def)

lemma col_set_col_same: "col k (set_col k v r) = v"
  by (induction r) (auto simp: col_def)









subsection \<open>Balances\<close>

lemmas eval_defs = io_defs Let_def faulty_def step_faults_def fresh_conn_def empty_db_def
  sql_select_def sql_insert_def sql_update_def sql_delete_def sql_insert_or_replace_def
  known_columns_def columns_def make_row_def same_key_def col_def sql_eq_def has_key_def
  apply_affinity_def affinity_of_def assign_def bind_param_def int64_def py_str_def by_user_def
  zero_user_def sql_int_literal_def sql_numeric_literal_def sql_trim_def unsigned_def
  sql_space_def is_digit_def

lemma by_user_assign:
  assumes "''user_id'' \<notin> set (map fst asg)"
  shows "by_user s (assign Users asg r) = by_user s r"
proof -
  have "col ''user_id'' (fold (\<lambda>(k, v) r'. set_col k (apply_affinity (affinity_of Users k) v) r') asg r)
        = col ''user_id'' r"
    using assms by (induction asg arbitrary: r) (auto simp: col_set_col_other)
  then show ?thesis by (simp add: by_user_def assign_def)
qed

lemma get_user_has_key:
  assumes "get_user uid c = (Inr user, c1)" and "users_have k (live c)" and "k \<in> {''cash'', ''bank''}"
  shows "has_key user k"
proof -
  have z: "has_key (zero_user (py_str uid)) k"
    using assms(3) by (auto simp: zero_user_def has_key_def)
  have "user = zero_user (py_str uid) \<or> user \<in> set (users (live c))"
    using get_user_cases[of uid c] assms(1) by auto
  then show ?thesis using z assms(2) by (auto simp: users_have_def list_all_iff)
qed

lemma update_user_sets:
  assumes run: "update_user uid [(k, PInt n)] c = (Inr True, c')"
    and k: "k \<in> {''cash'', ''bank''}"
    and wf: "users_have k (live c)"
  shows "list_all (\<lambda>r. col k r = SInt n) (find_user (py_str uid) (live c')) \<and> saved c' = live c'"
proof -
  define s where "s = py_str uid"
  have "\<exists>user c1. get_user (PStr s) c = (Inr user, c1)"
  proof (rule ccontr)
    assume "\<not> (\<exists>user c1. get_user (PStr s) c = (Inr user, c1))"
    then obtain c1 where "get_user (PStr s) c = (Inl SqliteError, c1)"
      using get_user_cases[of "PStr s" c] by blast
    then have "fst (update_user uid [(k, PInt n)] c) \<noteq> Inr True"
      unfolding update_user_def Let_def s_def[symmetric] by (simp add: io_defs)
    then show False using run by simp
  qed
  then obtain user c1 where gu: "get_user (PStr s) c = (Inr user, c1)" by blast
  have hk: "has_key user k" using get_user_has_key[OF gu wf k] .
  have knu: "k \<noteq> ''user_id''" using k by auto
  have flt: "filter (\<lambda>(key, value). has_key user key \<and> key \<noteq> ''user_id'') [(k, PInt n)] = [(k, PInt n)]"
    using hk knu by simp
  define stmt where "stmt = (\<lambda>t. sql_update Users ([(k, SInt n)] @ [(''updated_at'', SText t)]) (by_user s))"
  have run2: "update_user uid [(k, PInt n)] c =
      try_except (bind_io (lift (bind_params [(k, PInt n)]))
                    (\<lambda>values. seq_io (execute (\<lambda>t. sql_update Users (values @ [(''updated_at'', SText t)]) (by_user s)))
                       (seq_io commit (ret True))))
         is_sqlite_error (seq_io rollback (ret False)) c1"
    unfolding update_user_def Let_def s_def[symmetric]
    using gu flt by (simp add: bind_io_def try_except_def)
  have i64: "int64 n"
    using run unfolding run2 by (auto simp: io_defs bind_param_def split: if_splits)
  then have bp: "bind_params [(k, PInt n)] = Inr [(k, SInt n)]"
    by (simp add: bind_param_def)
  define d2 where "d2 = (live c1)\<lparr>users := map (\<lambda>r. if by_user s r
       then assign Users [(k, SInt n), (''updated_at'', SText (now c1))] r else r) (users (live c1))\<rparr>"
  have kc: "known_columns Users [(k, SInt n), (''updated_at'', SText t)]" for t
    using k by (auto simp: known_columns_def columns_def)
  have upd: "sql_update Users [(k, SInt n), (''updated_at'', SText (now c1))] (by_user s) (live c1) = Some d2"
    using kc by (simp add: sql_update_def d2_def)
  have res: "live c' = d2 \<and> saved c' = d2"
    using run unfolding run2 using bp upd
    by (auto simp: io_defs step_faults_def split: if_splits)
  have asg: "col k (assign Users [(k, SInt n), (''updated_at'', SText t)] r) = SInt n" for t r
    using k by (auto simp: assign_def affinity_of_def col_set_col_other col_set_col_same)
  have bu: "by_user s (assign Users [(k, SInt n), (''updated_at'', SText t)] r) = by_user s r" for t r
    using by_user_assign[of "[(k, SInt n), (''updated_at'', SText t)]" s r] knu by simp
  have "list_all (\<lambda>r. col k r = SInt n) (find_user s d2)"
    using asg bu by (auto simp: find_user_def sql_select_def d2_def list_all_iff)
  then show ?thesis using res by (simp add: s_def)
qed


lemma make_row_keys: "map fst (make_row T asg t) = columns T"
  by (simp add: make_row_def columns_def split_def comp_def)

lemma insert_users_keeps:
  assumes "sql_insert Users asg t d = Some d'" and "users_have k d" and "k \<in> {''cash'', ''bank''}"
  shows "users_have k d'"
proof -
  have "has_key (make_row Users asg t) k"
    using assms(3) unfolding has_key_def make_row_keys by (auto simp: columns_def)
  then show ?thesis
    using assms(1,2) by (auto simp: sql_insert_def users_have_def Let_def split: if_splits)
qed

lemma get_user_keeps_keys:
  assumes l: "users_have k (live c)" and sv: "users_have k (saved c)" and k: "k \<in> {''cash'', ''bank''}"
    and run: "get_user uid c = (res, c1)"
  shows "users_have k (live c1) \<and> users_have k (saved c1)"
proof -
  define asg where "asg = [(''user_id'', SText (py_str uid)), (''cash'', SInt 0), (''bank'', SInt 0)]"
  have ins: "\<And>d'. sql_insert Users asg (now c) (live c) = Some d' \<Longrightarrow> users_have k d'"
    using insert_users_keeps l k by blast
  show ?thesis
    using run l sv ins unfolding get_user_def Let_def asg_def[symmetric]
    by (auto simp: io_defs step_faults_def split: if_splits list.splits option.splits)
qed

lemma max0: "0 \<le> max (0::int) x" by simp

text \<open>
  C2, as amended. The balance helpers clamp at zero: whenever \<^verbatim>\<open>set_cash\<close>,
  \<^verbatim>\<open>add_cash\<close>, \<^verbatim>\<open>set_bank\<close> or \<^verbatim>\<open>add_bank\<close> reports success, from any state of the
  store (whose user rows have the column) and with any amount and any storage failures on
  the way, every row of the user holds a non-negative integer in that column, and the
  write is committed.
\<close>

theorem balance_helpers_clamp:
  assumes "users_have ''cash'' (live c)" and "users_have ''cash'' (saved c)"
    and "users_have ''bank'' (live c)" and "users_have ''bank'' (saved c)"
  shows "(set_cash uid amount c = (Inr True, c') \<longrightarrow>
            nonneg_balance ''cash'' (py_str uid) (live c') \<and> saved c' = live c')
       \<and> (add_cash uid amount c = (Inr True, c') \<longrightarrow>
            nonneg_balance ''cash'' (py_str uid) (live c') \<and> saved c' = live c')
       \<and> (set_bank uid amount c = (Inr True, c') \<longrightarrow>
            nonneg_balance ''bank'' (py_str uid) (live c') \<and> saved c' = live c')
       \<and> (add_bank uid amount c = (Inr True, c') \<longrightarrow>
            nonneg_balance ''bank'' (py_str uid) (live c') \<and> saved c' = live c')"
proof -
  have nn: "list_all (\<lambda>r. col k r = SInt n) rows \<Longrightarrow> 0 \<le> n
            \<Longrightarrow> list_all (\<lambda>r. case col k r of SInt n \<Rightarrow> 0 \<le> n | _ \<Rightarrow> False) rows" for k n rows
    by (auto simp: list_all_iff)
  have setc: "update_user uid [(k, PInt (max 0 x))] c = (Inr True, c') \<Longrightarrow> k \<in> {''cash'', ''bank''}
      \<Longrightarrow> users_have k (live c) \<Longrightarrow> nonneg_balance k (py_str uid) (live c') \<and> saved c' = live c'" for k x
    using update_user_sets[of uid k "max 0 x" c c'] nn[of k "max 0 x"]
    by (simp add: nonneg_balance_def)
  have addc: "bind_io (get_user (PStr (py_str uid))) (\<lambda>user. update_user (PStr (py_str uid))
                  [(k, PInt (max 0 (balance_of user k + x)))]) c = (Inr True, c')
      \<Longrightarrow> k \<in> {''cash'', ''bank''} \<Longrightarrow> users_have k (live c) \<Longrightarrow> users_have k (saved c)
      \<Longrightarrow> nonneg_balance k (py_str uid) (live c') \<and> saved c' = live c'" for k x
  proof -
    assume run: "bind_io (get_user (PStr (py_str uid))) (\<lambda>user. update_user (PStr (py_str uid))
                  [(k, PInt (max 0 (balance_of user k + x)))]) c = (Inr True, c')"
      and k: "k \<in> {''cash'', ''bank''}" and l: "users_have k (live c)" and sv: "users_have k (saved c)"
    have "\<exists>user c1. get_user (PStr (py_str uid)) c = (Inr user, c1)"
    proof (rule ccontr)
      assume "\<not> (\<exists>user c1. get_user (PStr (py_str uid)) c = (Inr user, c1))"
      then obtain c1 where "get_user (PStr (py_str uid)) c = (Inl SqliteError, c1)"
        using get_user_cases[of "PStr (py_str uid)" c] by blast
      then show False using run by (simp add: bind_io_def)
    qed
    then obtain user c1 where gu: "get_user (PStr (py_str uid)) c = (Inr user, c1)" by blast
    have wf1: "users_have k (live c1)"
      using get_user_keeps_keys[OF l sv k gu] by simp
    have "update_user (PStr (py_str uid)) [(k, PInt (max 0 (balance_of user k + x)))] c1 = (Inr True, c')"
      using run gu by (simp add: bind_io_def)
    from update_user_sets[OF this k wf1] nn[of k "max 0 (balance_of user k + x)"]
    show ?thesis by (simp add: nonneg_balance_def)
  qed
  have tc: "try_except m is_exception (ret False) c = (Inr True, c') \<Longrightarrow> m c = (Inr True, c')" for m
    by (auto simp: try_except_def is_exception_def ret_def split: prod.splits sum.splits)
  show ?thesis
    using assms setc[of "''cash''"] setc[of "''bank''"] addc[of "''cash''"] addc[of "''bank''"] tc
    unfolding set_cash_def set_bank_def add_cash_def add_bank_def Let_def
    by blast
qed


text \<open>
  C2 as stated fails: \<^verbatim>\<open>update_user\<close> binds the value it is given, so a negative cash
  is stored as it is.
\<close>

theorem update_user_negative_cash_counterexample:
  "fst (update_user (PStr ''u1'') [(''cash'', PInt (- 5))] fresh_conn) = Inr True
   \<and> map (col ''cash'')
        (find_user ''u1'' (live (snd (update_user (PStr ''u1'') [(''cash'', PInt (- 5))] fresh_conn))))
      = [SInt (- 5)]"
  by (simp add: update_user_def get_user_def find_user_def eval_defs)

theorem balance_helpers_clamp_witness:
  "users_have ''cash'' (live fresh_conn) \<and> users_have ''cash'' (saved fresh_conn)
   \<and> users_have ''bank'' (live fresh_conn) \<and> users_have ''bank'' (saved fresh_conn)
   \<and> fst (set_cash (PStr ''u1'') (PInt (- 7)) fresh_conn) = Inr True
   \<and> nonneg_balance ''cash'' ''u1'' (live (snd (set_cash (PStr ''u1'') (PInt (- 7)) fresh_conn)))
   \<and> map (col ''cash'') (find_user ''u1'' (live (snd (set_cash (PStr ''u1'') (PInt (- 7)) fresh_conn))))
      = [SInt 0]"
proof -
  have wf: "users_have ''cash'' (live fresh_conn)" "users_have ''cash'' (saved fresh_conn)"
      "users_have ''bank'' (live fresh_conn)" "users_have ''bank'' (saved fresh_conn)"
    by (simp_all add: users_have_def fresh_conn_def empty_db_def)
  have ok: "fst (set_cash (PStr ''u1'') (PInt (- 7)) fresh_conn) = Inr True"
    by (simp add: set_cash_def int_or_zero_def py_int_def update_user_def get_user_def eval_defs)
  then have run: "set_cash (PStr ''u1'') (PInt (- 7)) fresh_conn
                  = (Inr True, snd (set_cash (PStr ''u1'') (PInt (- 7)) fresh_conn))"
    by (metis prod.collapse)
  have v: "map (col ''cash'') (find_user ''u1'' (live (snd (set_cash (PStr ''u1'') (PInt (- 7)) fresh_conn))))
      = [SInt 0]"
    by (simp add: set_cash_def int_or_zero_def py_int_def update_user_def get_user_def find_user_def
        eval_defs)
  from balance_helpers_clamp[OF wf, of "PStr ''u1''" "PInt (- 7)"
         "snd (set_cash (PStr ''u1'') (PInt (- 7)) fresh_conn)"] run
  have "nonneg_balance ''cash'' ''u1'' (live (snd (set_cash (PStr ''u1'') (PInt (- 7)) fresh_conn)))"
    by simp
  with wf ok v show ?thesis by simp
qed

subsection \<open>The migration run\<close>

lemma migrate_as_run:
  "migrate_json_to_db files c = (case run_steps (steps files) c of (b, c') \<Rightarrow> (Inr b, c'))"
  unfolding migrate_json_to_db_def steps_def
  by (simp add: try_except_def seq_io_def bind_io_def ret_def is_exception_def
      split: prod.splits sum.splits)


text \<open>
  C3, amended. The run never raises. It takes the five steps in order, inside one
  \<^verbatim>\<open>try\<close>, and stops at the first one that raises: the answer is False and the store is
  left as that step left it, so no later step runs and what was committed before stays;
  the answer is True exactly when all five returned.
\<close>

theorem migration_stops_at_first_exception:
  "migrate_json_to_db files c = (case run_steps (steps files) c of (b, c') \<Rightarrow> (Inr b, c'))
   \<and> (migrate_economy (economy_json files) c = (Inl e, c1)
        \<longrightarrow> migrate_json_to_db files c = (Inr False, c1))
   \<and> (fst (migrate_json_to_db files c) = Inr True
        \<longrightarrow> (\<exists>c1 c2 c3 c4 c5.
               migrate_economy (economy_json files) c = (Inr (), c1)
               \<and> migrate_jobs (jobs_json files) c1 = (Inr (), c2)
               \<and> migrate_store (store_json files) c2 = (Inr (), c3)
               \<and> migrate_sects (sects_json files) c3 = (Inr (), c4)
               \<and> migrate_tournaments (tournaments_json files) c4 = (Inr (), c5)
               \<and> snd (migrate_json_to_db files c) = c5))"
proof (intro conjI impI)
  show "migrate_json_to_db files c = (case run_steps (steps files) c of (b, c') \<Rightarrow> (Inr b, c'))"
    by (rule migrate_as_run)
next
  assume "migrate_economy (economy_json files) c = (Inl e, c1)"
  then show "migrate_json_to_db files c = (Inr False, c1)"
    by (simp add: migrate_as_run steps_def)
next
  assume "fst (migrate_json_to_db files c) = Inr True"
  then show "\<exists>c1 c2 c3 c4 c5.
               migrate_economy (economy_json files) c = (Inr (), c1)
               \<and> migrate_jobs (jobs_json files) c1 = (Inr (), c2)
               \<and> migrate_store (store_json files) c2 = (Inr (), c3)
               \<and> migrate_sects (sects_json files) c3 = (Inr (), c4)
               \<and> migrate_tournaments (tournaments_json files) c4 = (Inr (), c5)
               \<and> snd (migrate_json_to_db files c) = c5"
    unfolding migrate_json_to_db_def
    by (auto simp: try_except_def seq_io_def bind_io_def ret_def is_exception_def
        split: prod.splits sum.splits)
qed

lemmas sect_defs =
  migrate_sects_def create_new_sect_def create_sect_def add_sect_member_def get_sect_def
  get_user_def members_of_def as_dict_def py_get_def sect_name_def by_sect_def by_member_def

lemma rich_economy_raises:
  "migrate_economy (economy_json rich_legacy) fresh_conn
   = (Inl OverflowError,
      fresh_conn\<lparr>live := empty_db\<lparr>users := [new_user_row ''u1'' (now fresh_conn)]\<rparr>,
                 saved := empty_db\<lparr>users := [new_user_row ''u1'' (now fresh_conn)]\<rparr>\<rparr>)"
  by (simp add: rich_legacy_def migrate_economy_def as_dict_def py_get_def update_user_def
      get_user_def new_user_row_def eval_defs)

text \<open>
  C3 as stated fails: the economy step raises \<^verbatim>\<open>OverflowError\<close> on a cash value of
  2^63, the run answers False, and the sect that the sects step would have stored on its
  own is not in the store.
\<close>

theorem migration_aborts_counterexample:
  "fst (migrate_economy (economy_json rich_legacy) fresh_conn) = Inl OverflowError
   \<and> fst (migrate_json_to_db rich_legacy fresh_conn) = Inr False
   \<and> sects (live (snd (migrate_json_to_db rich_legacy fresh_conn))) = []
   \<and> map (col ''sect_id'') (sects (live (snd (migrate_sects (sects_json rich_legacy) fresh_conn))))
     = [SText ''s1'']"
proof -
  have 1: "migrate_json_to_db rich_legacy fresh_conn
           = (Inr False,
              fresh_conn\<lparr>live := empty_db\<lparr>users := [new_user_row ''u1'' (now fresh_conn)]\<rparr>,
                         saved := empty_db\<lparr>users := [new_user_row ''u1'' (now fresh_conn)]\<rparr>\<rparr>)"
    using rich_economy_raises by (simp add: migrate_as_run steps_def)
  have 2: "map (col ''sect_id'') (sects (live (snd (migrate_sects (sects_json rich_legacy) fresh_conn))))
     = [SText ''s1'']"
    by (simp add: rich_legacy_def sect_defs eval_defs)
  show ?thesis using 1 2 rich_economy_raises by (simp add: empty_db_def)
qed

theorem migration_stops_at_first_exception_witness:
  "migrate_economy (economy_json rich_legacy) fresh_conn
     = (Inl OverflowError,
        fresh_conn\<lparr>live := empty_db\<lparr>users := [new_user_row ''u1'' (now fresh_conn)]\<rparr>,
                   saved := empty_db\<lparr>users := [new_user_row ''u1'' (now fresh_conn)]\<rparr>\<rparr>)
   \<and> migrate_json_to_db rich_legacy fresh_conn
     = (Inr False,
        fresh_conn\<lparr>live := empty_db\<lparr>users := [new_user_row ''u1'' (now fresh_conn)]\<rparr>,
                   saved := empty_db\<lparr>users := [new_user_row ''u1'' (now fresh_conn)]\<rparr>\<rparr>)
   \<and> fst (migrate_json_to_db plain_legacy fresh_conn) = Inr True
   \<and> (\<exists>c3 c4. migrate_sects (sects_json plain_legacy) c3 = (Inr (), c4)
         \<and> migrate_tournaments (tournaments_json plain_legacy) c4
            = (Inr (), snd (migrate_json_to_db plain_legacy fresh_conn)))"
proof -
  have t: "fst (migrate_json_to_db plain_legacy fresh_conn) = Inr True"
    by (simp add: migrate_json_to_db_def plain_legacy_def migrate_economy_def migrate_jobs_def
        migrate_store_def migrate_tournaments_def sect_defs eval_defs)
  from migration_stops_at_first_exception[of plain_legacy fresh_conn] t
  have s: "\<exists>c3 c4. migrate_sects (sects_json plain_legacy) c3 = (Inr (), c4)
         \<and> migrate_tournaments (tournaments_json plain_legacy) c4
            = (Inr (), snd (migrate_json_to_db plain_legacy fresh_conn))"
    by blast
  from migration_stops_at_first_exception[of rich_legacy fresh_conn OverflowError
        "fresh_conn\<lparr>live := empty_db\<lparr>users := [new_user_row ''u1'' (now fresh_conn)]\<rparr>,
                   saved := empty_db\<lparr>users := [new_user_row ''u1'' (now fresh_conn)]\<rparr>\<rparr>"]
    rich_economy_raises t s
  show ?thesis by blast
qed

subsection \<open>Bots in tournaments\<close>

lemmas tour_defs =
  migrate_tournaments_def golem_tournaments_def as_dict_def create_tournament_def update_tournament_def
  add_tournament_participant_def get_tournament_def get_tournament_participants_def
  get_tournaments_data_def tournament_entry_def project_participant_def
  status_and_winner_def participants_of_def bot_name_of_def is_bot_id_def reward_of_def reward_keys_def
  py_get_def tournament_title_def by_tournament_def parse_reward_def json_loads_text_def
  dump_reward_def is_dict_def get_user_def participant_view_def row_get_def py_of_sql_def
  sql_truthy_def contains_def subscript_def py_int_def int_of_string_def strip_def is_space_def
  unsigned_value_def digit_val_def string_of_int_def string_of_nat.simps digit_char_def
  json_string_def index_order_def sql_le_def

text \<open>
  C5 on the specification's example. After the migration the three participants are stored
  as the claim says: 200 is no bot, -1 is a bot named Iron Golem, -2 is a bot without a
  name. The projection reads them in the order of the primary key index, so -1, -2, 200,
  and gives -1 back as a number, and -2 as the text \<^verbatim>\<open>"-2"\<close>: the conversion is reached
  only for a bot that has a name.
\<close>

theorem bot_projection_evaluates:
  "set (map participant_view
         (tournament_participants (live (snd (migrate_tournaments golem_tournaments fresh_conn)))))
   = {(SText ''200'', SInt 0, SNull),
      (SText ''-1'', SInt 1, SText ''Iron Golem''),
      (SText ''-2'', SInt 1, SNull)}
   \<and> fst (get_tournaments_data (snd (migrate_tournaments golem_tournaments fresh_conn)))
     = Inr [(''t1'',
             PDict [(''title'', PStr ''Clash''), (''host'', PStr ''100''),
                    (''description'', PStr []), (''status'', PStr ''recruiting''),
                    (''participants'', PList [PInt (- 1), PStr ''-2'', PStr ''200'']),
                    (''bot_names'', PDict [(''-1'', PStr ''Iron Golem'')])])]"
proof -
  have rows: "map participant_view
         (tournament_participants (live (snd (migrate_tournaments golem_tournaments fresh_conn))))
      = [(SText ''200'', SInt 0, SNull),
         (SText ''-1'', SInt 1, SText ''Iron Golem''),
         (SText ''-2'', SInt 1, SNull)]"
    by (simp add: tour_defs eval_defs)
  have doc: "fst (get_tournaments_data (snd (migrate_tournaments golem_tournaments fresh_conn)))
     = Inr [(''t1'',
             PDict [(''title'', PStr ''Clash''), (''host'', PStr ''100''),
                    (''description'', PStr []), (''status'', PStr ''recruiting''),
                    (''participants'', PList [PInt (- 1), PStr ''-2'', PStr ''200'']),
                    (''bot_names'', PDict [(''-1'', PStr ''Iron Golem'')])])]"
    by (simp add: tour_defs eval_defs)
  show ?thesis unfolding rows doc by auto
qed

end
